theory Spec2Isabelle
  imports Complex_Main
begin

section \<open>The facet search session of src/ui/Facet/FacetSearch.ts\<close>

text \<open>
  The class \<^verbatim>\<open>FacetSearch\<close> is an event-driven object: DOM events, one debounce timer
  and the completions of promises call its methods, each of which runs to completion.
  Every method is embedded as a function from the object's state to its new state.
  What the collaborators of the class observe (the calls received by
  \<^verbatim>\<open>facetQueryController.search\<close>, the callbacks attached to the promises it
  returned, the calls of \<^verbatim>\<open>facet.processFacetSearchAllResultsSelected\<close>) is kept in
  the same record, so that a claim about "requests issued" or "notifications emitted"
  is a claim about a field. Logging, usage analytics, the highlighting and clipping of
  captions and the placement of the popup do not touch this state and are left out.
\<close>

subsection \<open>Values, parameters, rendered elements\<close>

text \<open>\<^verbatim>\<open>IIndexFieldValue\<close>: only its \<^verbatim>\<open>value\<close> is read in this class.\<close>

record IIndexFieldValue =
  fieldValue_value :: string
  numberOfResults :: nat

record FacetValue =
  facetValue_value :: string
  selected :: bool
  excluded :: bool

text \<open>
  Modelled from the spec: \<^verbatim>\<open>FacetValue.create\<close> (FacetValues.ts is not among the
  sources) makes the typed value object of a returned field value; a fresh value is
  neither selected nor excluded.
\<close>

definition FacetValue_create :: "IIndexFieldValue \<Rightarrow> FacetValue" where
  "FacetValue_create fieldValue =
     \<lparr>facetValue_value = fieldValue_value fieldValue, selected = False, excluded = False\<rparr>"

text \<open>
  Modelled from the spec: the class \<^verbatim>\<open>FacetSearchParameters\<close> (FacetSearchParameters.ts
  is not among the sources) is the request descriptor: search term, exclusion list,
  result-count cap and the \<^verbatim>\<open>fetchMore\<close> flag; \<^verbatim>\<open>searchEvenIfEmpty\<close> is the field
  read by \<^verbatim>\<open>startNewSearchTimeout\<close>.
\<close>

record FacetSearchParameters =
  valueToSearch :: string
  alwaysExclude :: "string list"
  nbResults :: nat
  fetchMore :: bool
  searchEvenIfEmpty :: bool

text \<open>
  A child of the \<^verbatim>\<open>ul\<close> element \<^verbatim>\<open>searchResults\<close>: what it stands for and the two CSS
  classes the class reads, \<^verbatim>\<open>coveo-facet-selectable\<close> and \<^verbatim>\<open>coveo-current\<close>.
  Elements are identified by their position in the list of children (the source
  compares DOM nodes by identity).
\<close>

datatype entry = SelectAll | ValueEntry string

record element =
  entry :: entry
  selectable :: bool
  current :: bool

text \<open>
  The facet and its options, as far as this class reads them. \<^verbatim>\<open>reorderValues\<close> is
  \<^verbatim>\<open>FacetValuesOrder.reorderValues\<close> and \<^verbatim>\<open>valuesGet\<close> is \<^verbatim>\<open>facet.values.get\<close>; both
  are collaborators outside the sources and are parameters here, as are the result cap
  and the \<^verbatim>\<open>searchEvenIfEmpty\<close> flag that the constructor of the missing
  FacetSearchParameters gives to new parameters.

  The record also carries the arithmetic of the JavaScript engine. The source computes
  on IEEE doubles: a finite double is read as the real number it denotes, and the
  engine's rounding addition, subtraction and division are the parameters \<open>doubleAdd\<close>,
  \<open>doubleSub\<close> and \<open>doubleDiv\<close>. Comparing two doubles is exact and is \<open><\<close> on the reals.
\<close>

record Facet =
  mobileDevice :: bool
  newDesign :: bool
  smallFacetActivated :: bool
  numberOfValuesInFacetSearch :: nat
  defaultSearchEvenIfEmpty :: bool
  reorderValues :: "IIndexFieldValue list \<Rightarrow> IIndexFieldValue list"
  valuesGet :: "string \<Rightarrow> FacetValue option"
  doubleAdd :: "real \<Rightarrow> real \<Rightarrow> real"
  doubleSub :: "real \<Rightarrow> real \<Rightarrow> real"
  doubleDiv :: "real \<Rightarrow> real \<Rightarrow> real"

type_synonym IEndpointError = string

text \<open>The callbacks attached to a promise returned by \<^verbatim>\<open>facetQueryController.search\<close>.\<close>

datatype handler = FacetSearchHandlers FacetSearchParameters | SelectAllHandlers

subsection \<open>The state of a FacetSearch object\<close>

record FacetSearch =
  currentlyDisplayedResults :: "string list option"
  searchResults :: "element list"
  searchResultsDisplay :: string
  inputValue :: string
  clearShown :: bool
  searchNoResults :: bool
  facetSearching :: bool
  facetSearchTimeout :: "FacetSearchParameters option"
  showingFacetSearchWaitAnimation :: bool
  facetSearchPromise :: "nat option"
  moreValuesToFetch :: bool
  inactiveValuesFaded :: bool
  facetWaitingAnimation :: bool
  searchCalls :: "FacetSearchParameters list"
  handlers :: "(nat \<times> handler) list"
  allResultsSelected :: "FacetValue list list"
  selectionChanged :: "(string \<times> bool) list"
  scrollListening :: bool

text \<open>
  \<^item> \<open>searchResultsDisplay\<close> is \<^verbatim>\<open>searchResults.style.display\<close>; \<open>inputValue\<close> is
    \<^verbatim>\<open>input.value\<close>; \<open>clearShown\<close> is the visibility of the clear button;
    \<open>searchNoResults\<close> and \<open>facetSearching\<close> are the classes
    \<^verbatim>\<open>coveo-facet-search-no-results\<close> on the search box and \<^verbatim>\<open>coveo-facet-searching\<close>
    on the facet.
  \<^item> \<open>facetSearchTimeout\<close> is the armed timer; its callback closes over the parameters,
    which are therefore what the field holds.
  \<^item> A promise is named by the index of the call of \<^verbatim>\<open>search\<close> that returned it;
    \<open>searchCalls\<close> lists the parameters of these calls in order and \<open>handlers\<close> holds the
    callbacks of the promises that are not settled yet.
  \<^item> \<open>allResultsSelected\<close> lists the arguments of the calls of
    \<^verbatim>\<open>facet.processFacetSearchAllResultsSelected\<close>; \<open>selectionChanged\<close> lists the values
    whose select (\<open>True\<close>) or exclude (\<open>False\<close>) action was invoked.
  \<^item> \<open>scrollListening\<close>: a scroll listener has been put on \<^verbatim>\<open>searchResults\<close>.
\<close>

definition isMobileDevice :: "Facet \<Rightarrow> bool" where
  "isMobileDevice facet \<longleftrightarrow> mobileDevice facet \<and> \<not> newDesign facet"

definition isNonEmptyString :: "string \<Rightarrow> bool" where
  "isNonEmptyString str \<longleftrightarrow> str \<noteq> []"

text \<open>The state after the constructor and \<^verbatim>\<open>buildBaseSearch\<close>.\<close>

definition initial :: FacetSearch where
  "initial = \<lparr>currentlyDisplayedResults = None, searchResults = [],
     searchResultsDisplay = ''none'', inputValue = [], clearShown = False,
     searchNoResults = False, facetSearching = False, facetSearchTimeout = None,
     showingFacetSearchWaitAnimation = False, facetSearchPromise = None,
     moreValuesToFetch = True, inactiveValuesFaded = False, facetWaitingAnimation = False,
     searchCalls = [], handlers = [], allResultsSelected = [], selectionChanged = [],
     scrollListening = False\<rparr>"

subsection \<open>Request parameters\<close>

definition newFacetSearchParameters :: "Facet \<Rightarrow> FacetSearchParameters" where
  "newFacetSearchParameters facet =
     \<lparr>valueToSearch = [], alwaysExclude = [], nbResults = numberOfValuesInFacetSearch facet,
      fetchMore = False, searchEvenIfEmpty = defaultSearchEvenIfEmpty facet\<rparr>"

definition setValueToSearch :: "string \<Rightarrow> FacetSearchParameters \<Rightarrow> FacetSearchParameters" where
  "setValueToSearch v params = params\<lparr>valueToSearch := v\<rparr>"

text \<open>
  Modelled from the spec: \<^verbatim>\<open>excludeCurrentlyDisplayedValuesInSearch\<close> (a method of the
  missing FacetSearchParameters) receives the rendered list and adds "the identifiers
  already shown" to the exclusions.
\<close>

fun shownValues :: "element list \<Rightarrow> string list" where
  "shownValues [] = []"
| "shownValues (e # es) =
     (case entry e of ValueEntry v \<Rightarrow> v # shownValues es | SelectAll \<Rightarrow> shownValues es)"

definition excludeCurrentlyDisplayedValuesInSearch ::
    "element list \<Rightarrow> FacetSearchParameters \<Rightarrow> FacetSearchParameters" where
  "excludeCurrentlyDisplayedValuesInSearch els params =
     params\<lparr>alwaysExclude := alwaysExclude params @ shownValues els\<rparr>"

definition getValueInInputForFacetSearch :: "FacetSearch \<Rightarrow> string" where
  "getValueInInputForFacetSearch s = inputValue s"

definition buildParamsForNormalSearch :: "Facet \<Rightarrow> FacetSearch \<Rightarrow> FacetSearchParameters" where
  "buildParamsForNormalSearch facet s =
     (setValueToSearch (getValueInInputForFacetSearch s) (newFacetSearchParameters facet))
       \<lparr>fetchMore := False\<rparr>"

definition buildParamsForExcludingCurrentlyDisplayedValues ::
    "Facet \<Rightarrow> FacetSearch \<Rightarrow> FacetSearchParameters" where
  "buildParamsForExcludingCurrentlyDisplayedValues facet s =
     setValueToSearch (getValueInInputForFacetSearch s)
       (excludeCurrentlyDisplayedValuesInSearch (searchResults s) (newFacetSearchParameters facet))"

definition buildParamsForFetchingMore :: "Facet \<Rightarrow> FacetSearch \<Rightarrow> FacetSearchParameters" where
  "buildParamsForFetchingMore facet s =
     (buildParamsForExcludingCurrentlyDisplayedValues facet s)\<lparr>fetchMore := True\<rparr>"

subsection \<open>The selection cursor\<close>

text \<open>
  \<^verbatim>\<open>getSelectables\<close> is \<^verbatim>\<open>findAll('.coveo-facet-selectable')\<close>, in document order;
  \<^verbatim>\<open>find('.coveo-current')\<close> is the first child with the class, or undefined.
\<close>

definition getSelectables :: "element list \<Rightarrow> nat list" where
  "getSelectables els = filter (\<lambda>i. selectable (els ! i)) [0..<length els]"

definition findCurrent :: "element list \<Rightarrow> nat option" where
  "findCurrent els = List.find (\<lambda>i. current (els ! i)) [0..<length els]"

text \<open>\<^verbatim>\<open>_.indexOf\<close>: the position of the first occurrence, or -1.\<close>

fun indexOf :: "nat list \<Rightarrow> nat \<Rightarrow> int" where
  "indexOf [] x = - 1"
| "indexOf (y # ys) x =
     (if y = x then 0 else (let r = indexOf ys x in if r < 0 then - 1 else r + 1))"

definition indexOfCurrent :: "nat list \<Rightarrow> nat option \<Rightarrow> int" where
  "indexOfCurrent allSelectables cur =
     (case cur of None \<Rightarrow> - 1 | Some c \<Rightarrow> indexOf allSelectables c)"

text \<open>\<^verbatim>\<open>allSelectables[k]\<close>: undefined when \<open>k\<close> is out of range.\<close>

definition itemAt :: "nat list \<Rightarrow> int \<Rightarrow> nat option" where
  "itemAt xs k = (if 0 \<le> k \<and> k < int (length xs) then Some (xs ! nat k) else None)"

definition removeCurrentFromSelectables :: "element list \<Rightarrow> element list" where
  "removeCurrentFromSelectables els =
     map (\<lambda>e. if selectable e then e\<lparr>current := False\<rparr> else e) els"

text \<open>
  \<^verbatim>\<open>$$(result).addClass('coveo-current')\<close>. On an undefined \<open>result\<close> nothing is
  marked. The source gets there only from the two move methods on a list without
  selectable elements, where this is the last statement; a render always leaves a
  selectable element.
\<close>

definition addCurrent :: "nat option \<Rightarrow> element list \<Rightarrow> element list" where
  "addCurrent result els =
     (case result of
        None \<Rightarrow> els
      | Some i \<Rightarrow> if i < length els then els[i := (els ! i)\<lparr>current := True\<rparr>] else els)"

definition makeCurrentResult :: "nat option \<Rightarrow> FacetSearch \<Rightarrow> FacetSearch" where
  "makeCurrentResult result s =
     s\<lparr>searchResults := addCurrent result (removeCurrentFromSelectables (searchResults s))\<rparr>"

definition makeFirstSearchResultTheCurrentOne :: "FacetSearch \<Rightarrow> FacetSearch" where
  "makeFirstSearchResultTheCurrentOne s =
     makeCurrentResult (itemAt (getSelectables (searchResults s)) 0) s"

definition moveCurrentResultDown :: "FacetSearch \<Rightarrow> FacetSearch" where
  "moveCurrentResultDown s =
     (let cur = findCurrent (searchResults s);
          els = removeCurrentFromSelectables (searchResults s);
          allSelectables = getSelectables els;
          idx = indexOfCurrent allSelectables cur
      in if idx < int (length allSelectables) - 1
         then s\<lparr>searchResults := addCurrent (itemAt allSelectables (idx + 1)) els\<rparr>
         else s\<lparr>searchResults := addCurrent (itemAt allSelectables 0) els\<rparr>)"

definition moveCurrentResultUp :: "FacetSearch \<Rightarrow> FacetSearch" where
  "moveCurrentResultUp s =
     (let cur = findCurrent (searchResults s);
          els = removeCurrentFromSelectables (searchResults s);
          allSelectables = getSelectables els;
          idx = indexOfCurrent allSelectables cur
      in if idx > 0
         then s\<lparr>searchResults := addCurrent (itemAt allSelectables (idx - 1)) els\<rparr>
         else s\<lparr>searchResults := addCurrent (itemAt allSelectables (int (length allSelectables) - 1)) els\<rparr>)"

text \<open>
  The cursor as the source computes it in both move methods: the index of the current
  element among the selectables, -1 when there is none.
\<close>

definition cursor :: "FacetSearch \<Rightarrow> int" where
  "cursor s = indexOfCurrent (getSelectables (searchResults s)) (findCurrent (searchResults s))"

subsection \<open>Cancelling, dismissing, triggering\<close>

definition showFacetSearchWaitingAnimation :: "FacetSearch \<Rightarrow> FacetSearch" where
  "showFacetSearchWaitingAnimation s = s\<lparr>showingFacetSearchWaitAnimation := True\<rparr>"

definition hideFacetSearchWaitingAnimation :: "FacetSearch \<Rightarrow> FacetSearch" where
  "hideFacetSearchWaitingAnimation s = s\<lparr>showingFacetSearchWaitAnimation := False\<rparr>"

text \<open>
  \<^verbatim>\<open>Promise.reject(this.facetSearchPromise).catch(() => { })\<close> makes a new, rejected
  promise whose reason is the pending one and swallows it. The pending promise and the
  callbacks attached to it are not touched, so \<open>handlers\<close> is left as it is: only the
  field \<open>facetSearchPromise\<close> is reset.
\<close>

definition cancelAnyPendingSearchOperation :: "FacetSearch \<Rightarrow> FacetSearch" where
  "cancelAnyPendingSearchOperation s =
     (let s1 = (if facetSearchTimeout s \<noteq> None then s\<lparr>facetSearchTimeout := None\<rparr> else s);
          s2 = (if facetSearchPromise s1 \<noteq> None then s1\<lparr>facetSearchPromise := None\<rparr> else s1)
      in hideFacetSearchWaitingAnimation s2)"

definition hideSearchResultsElement :: "FacetSearch \<Rightarrow> FacetSearch" where
  "hideSearchResultsElement s = s\<lparr>searchResultsDisplay := ''none''\<rparr>"

text \<open>
  \<^verbatim>\<open>positionSearchResults\<close>, as far as it writes \<^verbatim>\<open>style.display\<close>; the placement of the
  popup belongs to \<^verbatim>\<open>PopupUtils\<close>.
\<close>

definition positionSearchResults :: "Facet \<Rightarrow> FacetSearch \<Rightarrow> FacetSearch" where
  "positionSearchResults facet s =
     (let s1 = (if \<not> isMobileDevice facet then s\<lparr>searchResultsDisplay := ''block''\<rparr> else s)
      in if searchResultsDisplay s1 = ''none'' then s1\<lparr>searchResultsDisplay := []\<rparr> else s1)"

definition showSearchResultsElement :: "Facet \<Rightarrow> FacetSearch \<Rightarrow> FacetSearch" where
  "showSearchResultsElement facet s = positionSearchResults facet s"

definition completelyDismissSearch :: "FacetSearch \<Rightarrow> FacetSearch" where
  "completelyDismissSearch s =
     (let s1 = cancelAnyPendingSearchOperation s;
          s2 = s1\<lparr>inactiveValuesFaded := False\<rparr>;
          s3 = s2\<lparr>searchResults := []\<rparr>;
          s4 = s3\<lparr>moreValuesToFetch := True\<rparr>;
          s5 = s4\<lparr>searchNoResults := False\<rparr>;
          s6 = s5\<lparr>facetSearching := False\<rparr>;
          s7 = hideSearchResultsElement s6;
          s8 = s7\<lparr>inputValue := []\<rparr>;
          s9 = s8\<lparr>clearShown := False\<rparr>
      in s9\<lparr>currentlyDisplayedResults := None\<rparr>)"

text \<open>
  \<^verbatim>\<open>triggerNewFacetSearch\<close>. The call of \<^verbatim>\<open>facetQueryController.search\<close> is recorded in
  \<open>searchCalls\<close>; the promise it returns (an object, so the test
  \<^verbatim>\<open>if (this.facetSearchPromise)\<close> succeeds) gets the two callbacks, which close over
  \<open>params\<close>.
\<close>

definition triggerNewFacetSearch :: "FacetSearchParameters \<Rightarrow> FacetSearch \<Rightarrow> FacetSearch" where
  "triggerNewFacetSearch params s =
     (let s1 = cancelAnyPendingSearchOperation s;
          s2 = showFacetSearchWaitingAnimation s1;
          promise = length (searchCalls s2);
          s3 = s2\<lparr>searchCalls := searchCalls s2 @ [params]\<rparr>
      in s3\<lparr>facetSearchPromise := Some promise,
            handlers := handlers s3 @ [(promise, FacetSearchHandlers params)]\<rparr>)"

definition startNewSearchTimeout :: "FacetSearchParameters \<Rightarrow> FacetSearch \<Rightarrow> FacetSearch" where
  "startNewSearchTimeout params s =
     (cancelAnyPendingSearchOperation s)\<lparr>facetSearchTimeout := Some params\<rparr>"

text \<open>The callback given to \<^verbatim>\<open>setTimeout\<close> by \<^verbatim>\<open>startNewSearchTimeout\<close>.\<close>

definition searchTimeoutCallback :: "FacetSearchParameters \<Rightarrow> FacetSearch \<Rightarrow> FacetSearch" where
  "searchTimeoutCallback params s =
     (let valueInInput = getValueInInputForFacetSearch s
      in if valueInInput = []
         then (if searchEvenIfEmpty params then triggerNewFacetSearch params s
               else completelyDismissSearch s)
         else triggerNewFacetSearch params s)"

text \<open>The timer fires: only an armed timer runs its callback (\<^verbatim>\<open>clearTimeout\<close> is real).\<close>

definition fireSearchTimeout :: "FacetSearch \<Rightarrow> FacetSearch" where
  "fireSearchTimeout s =
     (case facetSearchTimeout s of None \<Rightarrow> s | Some params \<Rightarrow> searchTimeoutCallback params s)"

subsection \<open>Rendering results\<close>

text \<open>
  Modelled from the spec: the rendering collaborator (\<^verbatim>\<open>facetSearchValuesListKlass\<close>,
  outside the sources) "produces the selectable elements" for an ordered list of value
  objects: one selectable element per value, in order.
\<close>

definition buildValueElements :: "FacetValue list \<Rightarrow> element list" where
  "buildValueElements facetValues =
     map (\<lambda>v. \<lparr>entry = ValueEntry (facetValue_value v), selectable = True, current = False\<rparr>)
       facetValues"

definition rebuildSearchResults ::
    "Facet \<Rightarrow> IIndexFieldValue list \<Rightarrow> FacetSearchParameters \<Rightarrow> FacetSearch \<Rightarrow> FacetSearch" where
  "rebuildSearchResults facet fieldValues facetSearchParameters s =
     (let kept = (if \<not> fetchMore facetSearchParameters then [] else searchResults s);
          withClasses = isNonEmptyString (valueToSearch facetSearchParameters);
          selectAll = \<lparr>entry = SelectAll, selectable = withClasses, current = False\<rparr>;
          els1 = (if withClasses \<and> \<not> isMobileDevice facet then kept @ [selectAll] else kept);
          facetValues = map FacetValue_create fieldValues;
          els2 = els1 @ buildValueElements facetValues;
          displayed =
            (case currentlyDisplayedResults s of
               Some old \<Rightarrow> old @ map facetValue_value facetValues
             | None \<Rightarrow> map facetValue_value facetValues);
          els3 = (if isMobileDevice facet then els2 @ [selectAll] else els2)
      in s\<lparr>searchResults := els3, currentlyDisplayedResults := Some displayed,
           scrollListening := (scrollListening s \<or> newDesign facet)\<rparr>)"

text \<open>
  \<^verbatim>\<open>processNewFacetSearchResults\<close>. Highlighting and caption clipping rewrite captions
  only and are left out.
\<close>

definition processNewFacetSearchResults ::
    "Facet \<Rightarrow> IIndexFieldValue list \<Rightarrow> FacetSearchParameters \<Rightarrow> FacetSearch \<Rightarrow> FacetSearch" where
  "processNewFacetSearchResults facet fieldValues facetSearchParameters s =
     (let ordered = reorderValues facet fieldValues
      in if length ordered > 0
         then (let s1 = s\<lparr>searchNoResults := False\<rparr>;
                   s2 = s1\<lparr>inactiveValuesFaded := True\<rparr>;
                   s3 = rebuildSearchResults facet ordered facetSearchParameters s2;
                   s4 = (if \<not> fetchMore facetSearchParameters
                         then showSearchResultsElement facet s3 else s3)
               in makeFirstSearchResultTheCurrentOne s4)
         else if fetchMore facetSearchParameters
         then s\<lparr>moreValuesToFetch := False\<rparr>
         else (hideSearchResultsElement s)\<lparr>searchNoResults := True\<rparr>)"

text \<open>The two callbacks that \<^verbatim>\<open>triggerNewFacetSearch\<close> attaches to its promise.\<close>

definition facetSearchThen ::
    "Facet \<Rightarrow> FacetSearchParameters \<Rightarrow> IIndexFieldValue list \<Rightarrow> FacetSearch \<Rightarrow> FacetSearch" where
  "facetSearchThen facet params fieldValues s =
     (let s1 = processNewFacetSearchResults facet fieldValues params s;
          s2 = hideFacetSearchWaitingAnimation s1
      in s2\<lparr>facetSearchPromise := None\<rparr>)"

definition facetSearchCatch :: "IEndpointError option \<Rightarrow> FacetSearch \<Rightarrow> FacetSearch" where
  "facetSearchCatch error s =
     (let s1 = (if error \<noteq> None then hideFacetSearchWaitingAnimation s else s)
      in s1\<lparr>facetSearchPromise := None\<rparr>)"

subsection \<open>Selecting all matching values\<close>

text \<open>
  \<^verbatim>\<open>selectAllValuesMatchingSearch\<close> calls \<^verbatim>\<open>facetQueryController.search\<close> itself; its
  promise is not stored in \<open>facetSearchPromise\<close> and gets a \<^verbatim>\<open>then\<close> callback only.
\<close>

definition selectAllValuesMatchingSearch :: "Facet \<Rightarrow> FacetSearch \<Rightarrow> FacetSearch" where
  "selectAllValuesMatchingSearch facet s =
     (let s1 = s\<lparr>facetWaitingAnimation := True\<rparr>;
          searchParameters =
            setValueToSearch (getValueInInputForFacetSearch s1)
              ((newFacetSearchParameters facet)\<lparr>nbResults := 1000\<rparr>);
          promise = length (searchCalls s1);
          s2 = s1\<lparr>searchCalls := searchCalls s1 @ [searchParameters],
                  handlers := handlers s1 @ [(promise, SelectAllHandlers)]\<rparr>
      in completelyDismissSearch s2)"

definition markSelected :: "Facet \<Rightarrow> IIndexFieldValue \<Rightarrow> FacetValue" where
  "markSelected facet fieldValue =
     (let facetValue =
            (case valuesGet facet (fieldValue_value fieldValue) of
               None \<Rightarrow> FacetValue_create fieldValue
             | Some found \<Rightarrow> found)
      in facetValue\<lparr>selected := True, excluded := False\<rparr>)"

definition selectAllThen :: "Facet \<Rightarrow> IIndexFieldValue list \<Rightarrow> FacetSearch \<Rightarrow> FacetSearch" where
  "selectAllThen facet fieldValues s =
     (let s1 = completelyDismissSearch s;
          facetValues = map (markSelected facet) fieldValues
      in s1\<lparr>allResultsSelected := allResultsSelected s1 @ [facetValues]\<rparr>)"

subsection \<open>Acting on the current result\<close>

text \<open>
  Both methods start with an assertion; \<open>None\<close> is the failed assertion, which ends the
  event handler that called the method. Modelled from the spec: the elements of the
  rendering collaborator expose a "select" and an "exclude" action (a checkbox and an
  exclude button, outside the sources); the select-all entry has neither, so the
  source clicks it, which runs its click listener when it has one.
\<close>

definition performSelectActionOnCurrentSearchResult ::
    "Facet \<Rightarrow> FacetSearch \<Rightarrow> FacetSearch option" where
  "performSelectActionOnCurrentSearchResult facet s =
     (case findCurrent (searchResults s) of
        None \<Rightarrow> None
      | Some i \<Rightarrow>
          (case entry (searchResults s ! i) of
             ValueEntry v \<Rightarrow> Some (s\<lparr>selectionChanged := selectionChanged s @ [(v, True)]\<rparr>)
           | SelectAll \<Rightarrow>
               if selectable (searchResults s ! i)
               then Some (selectAllValuesMatchingSearch facet s) else Some s))"

definition performExcludeActionOnCurrentSearchResult :: "FacetSearch \<Rightarrow> FacetSearch option" where
  "performExcludeActionOnCurrentSearchResult s =
     (if length (filter current (searchResults s)) = 1
      then (case findCurrent (searchResults s) of
              None \<Rightarrow> None
            | Some i \<Rightarrow>
                (case entry (searchResults s ! i) of
                   ValueEntry v \<Rightarrow> Some (s\<lparr>selectionChanged := selectionChanged s @ [(v, False)]\<rparr>)
                 | SelectAll \<Rightarrow> Some s))
      else None)"

subsection \<open>Event handlers\<close>

datatype key = ENTER | DELETE | ESCAPE | DOWN_ARROW | UP_ARROW | OTHER_KEY

record KeyboardEvent =
  which :: key
  shiftKey :: bool

definition showOrHideClearElement :: "bool \<Rightarrow> FacetSearch \<Rightarrow> FacetSearch" where
  "showOrHideClearElement isEmpty s =
     (if \<not> isEmpty then s\<lparr>clearShown := True\<rparr>
      else s\<lparr>clearShown := False, searchNoResults := False\<rparr>)"

definition keyboardNavigationEnterPressed ::
    "Facet \<Rightarrow> KeyboardEvent \<Rightarrow> bool \<Rightarrow> FacetSearch \<Rightarrow> FacetSearch" where
  "keyboardNavigationEnterPressed facet event isEmpty s =
     (if shiftKey event then triggerNewFacetSearch (buildParamsForNormalSearch facet s) s
      else if searchResultsDisplay s \<noteq> ''none''
      then (case performSelectActionOnCurrentSearchResult facet s of
              None \<Rightarrow> s
            | Some s1 \<Rightarrow> completelyDismissSearch s1)
      else if searchNoResults s \<and> \<not> isEmpty then selectAllValuesMatchingSearch facet s
      else s)"

definition keyboardNavigationDeletePressed :: "KeyboardEvent \<Rightarrow> FacetSearch \<Rightarrow> FacetSearch" where
  "keyboardNavigationDeletePressed event s =
     (if shiftKey event
      then (case performExcludeActionOnCurrentSearchResult s of
              None \<Rightarrow> s
            | Some s1 \<Rightarrow> (completelyDismissSearch s1)\<lparr>inputValue := []\<rparr>)
      else s)"

definition handleKeyboardNavigation ::
    "Facet \<Rightarrow> KeyboardEvent \<Rightarrow> bool \<Rightarrow> FacetSearch \<Rightarrow> FacetSearch" where
  "handleKeyboardNavigation facet event isEmpty s =
     (case which event of
        ENTER \<Rightarrow> keyboardNavigationEnterPressed facet event isEmpty s
      | DELETE \<Rightarrow> keyboardNavigationDeletePressed event s
      | ESCAPE \<Rightarrow> completelyDismissSearch s
      | DOWN_ARROW \<Rightarrow> moveCurrentResultDown s
      | UP_ARROW \<Rightarrow> moveCurrentResultUp s
      | OTHER_KEY \<Rightarrow>
          (let s1 = s\<lparr>moreValuesToFetch := True\<rparr>
           in startNewSearchTimeout (buildParamsForNormalSearch facet s1) s1))"

definition handleFacetSearchKeyUp :: "Facet \<Rightarrow> KeyboardEvent \<Rightarrow> FacetSearch \<Rightarrow> FacetSearch" where
  "handleFacetSearchKeyUp facet event s =
     (let isEmpty = (inputValue s = []);
          s1 = showOrHideClearElement isEmpty s
      in if \<not> isMobileDevice facet then handleKeyboardNavigation facet event isEmpty s1
         else startNewSearchTimeout (buildParamsForNormalSearch facet s1) s1)"

definition handleFacetSearchFocus :: "Facet \<Rightarrow> FacetSearch \<Rightarrow> FacetSearch" where
  "handleFacetSearchFocus facet s =
     (if \<not> isMobileDevice facet
      then (if newDesign facet
            then startNewSearchTimeout (buildParamsForExcludingCurrentlyDisplayedValues facet s) s
            else startNewSearchTimeout (buildParamsForNormalSearch facet s) s)
      else s)"

definition handleClickElsewhere :: "Facet \<Rightarrow> bool \<Rightarrow> FacetSearch \<Rightarrow> FacetSearch" where
  "handleClickElsewhere facet targetIsSearchOrResults s =
     (if currentlyDisplayedResults s \<noteq> None \<and> \<not> isMobileDevice facet \<and> \<not> targetIsSearchOrResults
      then completelyDismissSearch s else s)"

definition handleFacetSearchClear :: "FacetSearch \<Rightarrow> FacetSearch" where
  "handleFacetSearchClear s = completelyDismissSearch (s\<lparr>inputValue := [], clearShown := False\<rparr>)"

text \<open>
  \<^verbatim>\<open>handleFacetSearchResultsScroll\<close>, given \<^verbatim>\<open>clientHeight\<close>, \<^verbatim>\<open>scrollHeight\<close> and
  \<^verbatim>\<open>scrollTop\<close> of the list.
\<close>

definition handleFacetSearchResultsScroll ::
    "Facet \<Rightarrow> real \<Rightarrow> real \<Rightarrow> real \<Rightarrow> FacetSearch \<Rightarrow> FacetSearch" where
  "handleFacetSearchResultsScroll facet elementHeight scrollHeight scrollTop s =
     (if facetSearchPromise s \<noteq> None \<or> getValueInInputForFacetSearch s \<noteq> []
         \<or> \<not> moreValuesToFetch s
      then s
      else (let bottomPosition = doubleAdd facet scrollTop elementHeight
            in if doubleSub facet scrollHeight bottomPosition < doubleDiv facet elementHeight 2
               then triggerNewFacetSearch (buildParamsForFetchingMore facet s) s
               else s))"

definition shouldPositionSearchResults :: "Facet \<Rightarrow> FacetSearch \<Rightarrow> bool" where
  "shouldPositionSearchResults facet s \<longleftrightarrow>
     \<not> isMobileDevice facet \<and> \<not> smallFacetActivated facet \<and> facetSearching s"

subsection \<open>Settling promises\<close>

text \<open>
  A promise settles once: its callbacks leave \<open>handlers\<close> and run. A promise that is
  not pending (never returned, or settled before) runs nothing.
\<close>

definition withoutPromise :: "nat \<Rightarrow> (nat \<times> handler) list \<Rightarrow> (nat \<times> handler) list" where
  "withoutPromise promise hs = filter (\<lambda>h. fst h \<noteq> promise) hs"

definition resolvePromise ::
    "Facet \<Rightarrow> nat \<Rightarrow> IIndexFieldValue list \<Rightarrow> FacetSearch \<Rightarrow> FacetSearch" where
  "resolvePromise facet promise fieldValues s =
     (case map_of (handlers s) promise of
        None \<Rightarrow> s
      | Some h \<Rightarrow>
          (let s1 = s\<lparr>handlers := withoutPromise promise (handlers s)\<rparr>
           in case h of
                FacetSearchHandlers params \<Rightarrow> facetSearchThen facet params fieldValues s1
              | SelectAllHandlers \<Rightarrow> selectAllThen facet fieldValues s1))"

definition rejectPromise :: "nat \<Rightarrow> IEndpointError option \<Rightarrow> FacetSearch \<Rightarrow> FacetSearch" where
  "rejectPromise promise error s =
     (case map_of (handlers s) promise of
        None \<Rightarrow> s
      | Some h \<Rightarrow>
          (let s1 = s\<lparr>handlers := withoutPromise promise (handlers s)\<rparr>
           in case h of
                FacetSearchHandlers params \<Rightarrow> facetSearchCatch error s1
              | SelectAllHandlers \<Rightarrow> s1))"

subsection \<open>The event loop\<close>

datatype event =
    InputEdited string
  | KeyUp KeyboardEvent
  | FocusInput
  | ClickElsewhere bool
  | ClickClear
  | TimeoutFires
  | PromiseResolves nat "IIndexFieldValue list"
  | PromiseRejects nat "IEndpointError option"
  | ResultsScrolled real real real
  | MouseMoveOn nat
  | ReleaseOn nat
  | ClickSelectAll nat
  | WindowResized
  | ModalValidated

text \<open>
  One turn of the event loop. \<open>InputEdited\<close> is the browser changing \<^verbatim>\<open>input.value\<close>;
  \<open>ReleaseOn\<close> is a mouseup or touchend without dragging on a selectable element, whose
  listener dismisses the search from a timer of delay 0; \<open>ModalValidated\<close> is the
  validation callback of the mobile modal box.
\<close>

fun step :: "Facet \<Rightarrow> event \<Rightarrow> FacetSearch \<Rightarrow> FacetSearch" where
  "step facet (InputEdited text) s = s\<lparr>inputValue := text\<rparr>"
| "step facet (KeyUp event) s = handleFacetSearchKeyUp facet event s"
| "step facet FocusInput s = handleFacetSearchFocus facet s"
| "step facet (ClickElsewhere targetIsSearchOrResults) s =
     handleClickElsewhere facet targetIsSearchOrResults s"
| "step facet ClickClear s = handleFacetSearchClear s"
| "step facet TimeoutFires s = fireSearchTimeout s"
| "step facet (PromiseResolves promise fieldValues) s = resolvePromise facet promise fieldValues s"
| "step facet (PromiseRejects promise error) s = rejectPromise promise error s"
| "step facet (ResultsScrolled elementHeight scrollHeight scrollTop) s =
     (if scrollListening s
      then handleFacetSearchResultsScroll facet elementHeight scrollHeight scrollTop s else s)"
| "step facet (MouseMoveOn i) s =
     (if i < length (searchResults s) \<and> selectable (searchResults s ! i)
      then makeCurrentResult (Some i) s else s)"
| "step facet (ReleaseOn i) s =
     (if i < length (searchResults s) \<and> selectable (searchResults s ! i)
      then completelyDismissSearch s else s)"
| "step facet (ClickSelectAll i) s =
     (if i < length (searchResults s) \<and> selectable (searchResults s ! i)
         \<and> entry (searchResults s ! i) = SelectAll
      then selectAllValuesMatchingSearch facet s else s)"
| "step facet WindowResized s =
     (if shouldPositionSearchResults facet s then positionSearchResults facet s else s)"
| "step facet ModalValidated s = completelyDismissSearch s"

fun run :: "Facet \<Rightarrow> event list \<Rightarrow> FacetSearch \<Rightarrow> FacetSearch" where
  "run facet [] s = s"
| "run facet (e # es) s = run facet es (step facet e s)"

subsection \<open>Well-formed lists\<close>

text \<open>
  The class puts \<^verbatim>\<open>coveo-current\<close> on selectable elements only; this is the invariant
  of the rendered list under which the cursor is read.
\<close>

definition currentOnlyOnSelectables :: "element list \<Rightarrow> bool" where
  "currentOnlyOnSelectables els = list_all (\<lambda>e. current e \<longrightarrow> selectable e) els"

subsection \<open>Observations\<close>

text \<open>The state that \<^verbatim>\<open>completelyDismissSearch\<close> leaves behind.\<close>

definition dismissed :: "FacetSearch \<Rightarrow> bool" where
  "dismissed s \<longleftrightarrow>
     searchResults s = [] \<and> currentlyDisplayedResults s = None \<and> inputValue s = []
     \<and> moreValuesToFetch s \<and> searchResultsDisplay s = ''none''
     \<and> facetSearchTimeout s = None \<and> facetSearchPromise s = None
     \<and> \<not> showingFacetSearchWaitAnimation s \<and> \<not> clearShown s \<and> \<not> searchNoResults s
     \<and> \<not> facetSearching s \<and> \<not> inactiveValuesFaded s"

text \<open>Pending promises were returned by earlier calls of \<^verbatim>\<open>search\<close>.\<close>

definition pendingPromisesIssued :: "FacetSearch \<Rightarrow> bool" where
  "pendingPromisesIssued s = list_all (\<lambda>h. fst h < length (searchCalls s)) (handlers s)"

text \<open>
  The values in \<open>currentlyDisplayedResults\<close>, none when it is undefined. A step
  \<open>keepsDisplayed\<close> when it only appends to them, or leaves the search dismissed.
\<close>

definition displayed :: "FacetSearch \<Rightarrow> string list" where
  "displayed s = (case currentlyDisplayedResults s of None \<Rightarrow> [] | Some shown \<Rightarrow> shown)"

definition keepsDisplayed :: "FacetSearch \<Rightarrow> FacetSearch \<Rightarrow> bool" where
  "keepsDisplayed s s' \<longleftrightarrow>
     (case currentlyDisplayedResults s' of
        Some shown \<Rightarrow> \<exists>added. shown = displayed s @ added
      | None \<Rightarrow> currentlyDisplayedResults s = None \<or> dismissed s')"

definition grows :: "FacetSearch \<Rightarrow> FacetSearch \<Rightarrow> bool" where
  "grows s s' \<longleftrightarrow>
     currentlyDisplayedResults s' = currentlyDisplayedResults s
     \<or> (\<exists>added. currentlyDisplayedResults s' = Some (displayed s @ added))"

text \<open>
  The two ways in which a step of the event loop can set \<open>moreValuesToFetch\<close>: the
  search ends up dismissed, or the event is the keyup of a key without a binding on a
  desktop facet.
\<close>

definition resetsMore :: "Facet \<Rightarrow> event \<Rightarrow> FacetSearch \<Rightarrow> bool" where
  "resetsMore facet ev s' \<longleftrightarrow>
     dismissed s'
     \<or> (\<exists>event. ev = KeyUp event \<and> which event = OTHER_KEY \<and> \<not> isMobileDevice facet)"

subsection \<open>Sample inputs\<close>

text \<open>
  A desktop facet of the new design whose orderer keeps the order it is given. Its
  arithmetic is exact, as the arithmetic of doubles is on the heights used below (100,
  120 and 10, whose sums, differences and halves are small integers).
\<close>

definition sampleFacet :: Facet where
  "sampleFacet =
     \<lparr>mobileDevice = False, newDesign = True, smallFacetActivated = False,
      numberOfValuesInFacetSearch = 15, defaultSearchEvenIfEmpty = True,
      reorderValues = (\<lambda>fieldValues. fieldValues), valuesGet = (\<lambda>v. None),
      doubleAdd = (\<lambda>x y. x + y), doubleSub = (\<lambda>x y. x - y), doubleDiv = (\<lambda>x y. x / y)\<rparr>"

definition fieldValue :: "string \<Rightarrow> IIndexFieldValue" where
  "fieldValue v = \<lparr>fieldValue_value = v, numberOfResults = 1\<rparr>"

definition normalSearch :: "string \<Rightarrow> FacetSearchParameters" where
  "normalSearch term =
     \<lparr>valueToSearch = term, alwaysExclude = [], nbResults = 15, fetchMore = False,
      searchEvenIfEmpty = False\<rparr>"

definition shiftEnter :: KeyboardEvent where
  "shiftEnter = \<lparr>which = ENTER, shiftKey = True\<rparr>"

definition plainKey :: "key \<Rightarrow> KeyboardEvent" where
  "plainKey k = \<lparr>which = k, shiftKey = False\<rparr>"

text \<open>Three values rendered by a search for the empty term.\<close>

definition threeResults :: FacetSearch where
  "threeResults =
     processNewFacetSearchResults sampleFacet
       [fieldValue ''x'', fieldValue ''y'', fieldValue ''z''] (normalSearch []) initial"

definition fetchMoreSearch :: "string list \<Rightarrow> FacetSearchParameters" where
  "fetchMoreSearch shown =
     \<lparr>valueToSearch = [], alwaysExclude = shown, nbResults = 15, fetchMore = True,
      searchEvenIfEmpty = True\<rparr>"

text \<open>
  A session in which pagination found nothing more, and one with two searches in flight.
\<close>

definition paginationExhausted :: FacetSearch where
  "paginationExhausted =
     run sampleFacet
       [FocusInput, TimeoutFires, PromiseResolves 0 [fieldValue ''x'', fieldValue ''y''],
        ResultsScrolled 100 120 10, PromiseResolves 1 []] initial"

definition twoSearches :: FacetSearch where
  "twoSearches =
     run sampleFacet
       [InputEdited ''a'', KeyUp shiftEnter, InputEdited ''ab'', KeyUp shiftEnter] initial"

text \<open>
  With the input empty, Shift+Enter triggers a search (promise 0) that resolves with two
  values; then a replace search is triggered twice with Shift+Enter: the first of the
  two (promise 1) is superseded, the second (promise 2) is the current request.
\<close>

definition replaceInFlight :: FacetSearch where
  "replaceInFlight =
     run sampleFacet
       [KeyUp shiftEnter, PromiseResolves 0 [fieldValue ''x'', fieldValue ''y''],
        KeyUp shiftEnter, KeyUp shiftEnter] initial"

definition noResultsFor :: "string \<Rightarrow> FacetSearch" where
  "noResultsFor term = initial\<lparr>inputValue := term, clearShown := True, searchNoResults := True\<rparr>"

section \<open>Properties\<close>

lemmas cancel_defs =
  cancelAnyPendingSearchOperation_def hideFacetSearchWaitingAnimation_def

lemmas dismiss_defs =
  completelyDismissSearch_def cancel_defs hideSearchResultsElement_def

lemma cursor_no_results: "searchResults s = [] \<Longrightarrow> cursor s = - 1"
  by (simp add: cursor_def findCurrent_def getSelectables_def indexOfCurrent_def)

lemma searchResults_dismiss: "searchResults (completelyDismissSearch s) = []"
  by (simp add: dismiss_defs)

lemma dismiss_idem:
  "completelyDismissSearch (completelyDismissSearch s) = completelyDismissSearch s"
  by (simp add: dismiss_defs)

subsection \<open>Dismissing\<close>

text \<open>
  Claim C7. After \<^verbatim>\<open>completelyDismissSearch\<close>, from any state: the rendered list is
  empty, no element is current (the cursor is -1), \<open>moreValuesToFetch\<close> is true, the
  input text is empty and \<open>currentlyDisplayedResults\<close> is undefined; dismissing again
  changes nothing.
\<close>

theorem completelyDismissSearch_resets:
  "searchResults (completelyDismissSearch s) = []
   \<and> cursor (completelyDismissSearch s) = - 1
   \<and> moreValuesToFetch (completelyDismissSearch s)
   \<and> inputValue (completelyDismissSearch s) = []
   \<and> currentlyDisplayedResults (completelyDismissSearch s) = None
   \<and> completelyDismissSearch (completelyDismissSearch s) = completelyDismissSearch s"
proof -
  have "cursor (completelyDismissSearch s) = - 1"
    by (rule cursor_no_results) (rule searchResults_dismiss)
  moreover have "moreValuesToFetch (completelyDismissSearch s)"
    and "inputValue (completelyDismissSearch s) = []"
    and "currentlyDisplayedResults (completelyDismissSearch s) = None"
    by (simp_all add: dismiss_defs)
  ultimately show ?thesis
    using searchResults_dismiss dismiss_idem by simp
qed

subsection \<open>Moving the cursor\<close>

lemma length_removeCurrent [simp]:
  "length (removeCurrentFromSelectables els) = length els"
  by (simp add: removeCurrentFromSelectables_def)

lemma selectable_removeCurrent:
  "i < length els \<Longrightarrow> selectable (removeCurrentFromSelectables els ! i) = selectable (els ! i)"
  by (simp add: removeCurrentFromSelectables_def)

lemma getSelectables_removeCurrent [simp]:
  "getSelectables (removeCurrentFromSelectables els) = getSelectables els"
  unfolding getSelectables_def
  by (rule filter_cong) (simp_all add: selectable_removeCurrent)

lemma length_addCurrent [simp]: "length (addCurrent r els) = length els"
  by (simp add: addCurrent_def split: option.splits)

lemma selectable_addCurrent:
  "i < length els \<Longrightarrow> selectable (addCurrent r els ! i) = selectable (els ! i)"
  by (simp add: addCurrent_def nth_list_update split: option.splits)

lemma getSelectables_addCurrent [simp]:
  "getSelectables (addCurrent r els) = getSelectables els"
  unfolding getSelectables_def
  by (rule filter_cong) (simp_all add: selectable_addCurrent)

lemma not_current_removeCurrent:
  "currentOnlyOnSelectables els \<Longrightarrow> i < length els \<Longrightarrow>
     \<not> current (removeCurrentFromSelectables els ! i)"
  by (auto simp: currentOnlyOnSelectables_def removeCurrentFromSelectables_def list_all_length)

lemma findCurrent_addCurrent:
  assumes "\<forall>i<length els. \<not> current (els ! i)" and "j < length els"
  shows "findCurrent (addCurrent (Some j) els) = Some j"
  using assms
  by (auto simp: findCurrent_def addCurrent_def find_Some_iff nth_list_update intro!: exI[of _ j])

lemma findCurrent_none:
  assumes "\<forall>i<length els. \<not> current (els ! i)"
  shows "findCurrent els = None"
  using assms by (auto simp: findCurrent_def find_None_iff)

lemma indexOf_range: "- 1 \<le> indexOf xs x \<and> indexOf xs x < int (length xs)"
  by (induction xs) (auto simp: Let_def)

lemma indexOf_nth: "distinct xs \<Longrightarrow> k < length xs \<Longrightarrow> indexOf xs (xs ! k) = int k"
proof (induction xs arbitrary: k)
  case Nil
  then show ?case by simp
next
  case (Cons y ys)
  show ?case
  proof (cases k)
    case 0
    then show ?thesis by simp
  next
    case (Suc m)
    with Cons.prems have "m < length ys" "distinct ys" "ys ! m \<noteq> y" by auto
    with Cons.IH[of m] Suc show ?thesis by (simp add: Let_def)
  qed
qed

lemma distinct_getSelectables: "distinct (getSelectables els)"
  by (simp add: getSelectables_def)

lemma getSelectables_nth_less:
  "k < length (getSelectables els) \<Longrightarrow> getSelectables els ! k < length els"
proof -
  assume "k < length (getSelectables els)"
  then have "getSelectables els ! k \<in> set (getSelectables els)" by simp
  then show ?thesis by (simp add: getSelectables_def)
qed

lemma cursor_range:
  "- 1 \<le> cursor s \<and> cursor s < int (length (getSelectables (searchResults s)))"
  by (cases "findCurrent (searchResults s)") (simp_all add: cursor_def indexOfCurrent_def indexOf_range)

lemma cursor_anchor:
  assumes wf: "currentOnlyOnSelectables (searchResults s)"
    and k: "0 \<le> k" "k < int (length (getSelectables (searchResults s)))"
  shows "cursor (s\<lparr>searchResults := addCurrent (itemAt (getSelectables (removeCurrentFromSelectables (searchResults s))) k)
            (removeCurrentFromSelectables (searchResults s))\<rparr>) = k"
proof -
  let ?els = "removeCurrentFromSelectables (searchResults s)"
  let ?sel = "getSelectables (searchResults s)"
  from k have nk: "nat k < length ?sel" by simp
  have at: "itemAt (getSelectables ?els) k = Some (?sel ! nat k)"
    using k by (simp add: itemAt_def)
  have lt: "?sel ! nat k < length ?els"
    using getSelectables_nth_less[OF nk] by simp
  have none: "\<forall>i<length ?els. \<not> current (?els ! i)"
    using wf by (simp add: not_current_removeCurrent)
  have "findCurrent (addCurrent (Some (?sel ! nat k)) ?els) = Some (?sel ! nat k)"
    by (rule findCurrent_addCurrent[OF none lt])
  then show ?thesis
    using at k indexOf_nth[OF distinct_getSelectables nk]
    by (simp add: cursor_def indexOfCurrent_def)
qed

lemma wf_removeCurrent:
  "currentOnlyOnSelectables els \<Longrightarrow> currentOnlyOnSelectables (removeCurrentFromSelectables els)"
  by (auto simp: currentOnlyOnSelectables_def removeCurrentFromSelectables_def list_all_length)

lemma wf_addCurrent:
  assumes "currentOnlyOnSelectables els" and "\<And>j. r = Some j \<Longrightarrow> j < length els \<Longrightarrow> selectable (els ! j)"
  shows "currentOnlyOnSelectables (addCurrent r els)"
  using assms
  by (cases r) (auto simp: addCurrent_def currentOnlyOnSelectables_def list_all_length nth_list_update)

lemma itemAt_getSelectables:
  assumes "itemAt (getSelectables els) k = Some j"
  shows "j < length els \<and> selectable (els ! j)"
proof -
  from assms have "j \<in> set (getSelectables els)"
    by (auto simp: itemAt_def split: if_splits)
  then show ?thesis by (simp add: getSelectables_def)
qed

lemma wf_anchor:
  assumes "currentOnlyOnSelectables els"
  shows "currentOnlyOnSelectables
     (addCurrent (itemAt (getSelectables els) k) (removeCurrentFromSelectables els))"
proof (rule wf_addCurrent)
  show "currentOnlyOnSelectables (removeCurrentFromSelectables els)"
    using assms by (rule wf_removeCurrent)
next
  fix j
  assume "itemAt (getSelectables els) k = Some j"
  then have "j < length els \<and> selectable (els ! j)"
    by (rule itemAt_getSelectables)
  then show "selectable (removeCurrentFromSelectables els ! j)"
    by (simp add: selectable_removeCurrent)
qed

lemma cursor_moveDown:
  assumes wf: "currentOnlyOnSelectables (searchResults s)"
    and n: "1 \<le> length (getSelectables (searchResults s))"
  shows "cursor (moveCurrentResultDown s) =
     (if cursor s < int (length (getSelectables (searchResults s))) - 1 then cursor s + 1 else 0)"
proof -
  let ?n = "int (length (getSelectables (searchResults s)))"
  have idx: "indexOfCurrent (getSelectables (searchResults s)) (findCurrent (searchResults s)) = cursor s"
    by (simp add: cursor_def)
  show ?thesis
  proof (cases "cursor s < ?n - 1")
    case True
    with cursor_range[of s] have "0 \<le> cursor s + 1" "cursor s + 1 < ?n" by simp_all
    from cursor_anchor[OF wf this] True show ?thesis
      by (simp add: moveCurrentResultDown_def Let_def idx)
  next
    case False
    from n have "(0::int) \<le> 0" "0 < ?n" by (cases "getSelectables (searchResults s)"; simp)+
    from cursor_anchor[OF wf this] False show ?thesis
      by (simp add: moveCurrentResultDown_def Let_def idx)
  qed
qed

lemma cursor_moveUp:
  assumes wf: "currentOnlyOnSelectables (searchResults s)"
    and n: "1 \<le> length (getSelectables (searchResults s))"
  shows "cursor (moveCurrentResultUp s) =
     (if cursor s > 0 then cursor s - 1 else int (length (getSelectables (searchResults s))) - 1)"
proof -
  let ?n = "int (length (getSelectables (searchResults s)))"
  have idx: "indexOfCurrent (getSelectables (searchResults s)) (findCurrent (searchResults s)) = cursor s"
    by (simp add: cursor_def)
  show ?thesis
  proof (cases "cursor s > 0")
    case True
    with cursor_range[of s] have "0 \<le> cursor s - 1" "cursor s - 1 < ?n" by simp_all
    from cursor_anchor[OF wf this] True show ?thesis
      by (simp add: moveCurrentResultUp_def Let_def idx)
  next
    case False
    from n have "(0::int) \<le> ?n - 1" "?n - 1 < ?n" by (cases "getSelectables (searchResults s)"; simp)+
    from cursor_anchor[OF wf this] False show ?thesis
      by (simp add: moveCurrentResultUp_def Let_def idx)
  qed
qed

lemma wf_moveDown:
  "currentOnlyOnSelectables (searchResults s) \<Longrightarrow>
   currentOnlyOnSelectables (searchResults (moveCurrentResultDown s))"
  by (simp add: moveCurrentResultDown_def Let_def wf_anchor)

lemma wf_moveUp:
  "currentOnlyOnSelectables (searchResults s) \<Longrightarrow>
   currentOnlyOnSelectables (searchResults (moveCurrentResultUp s))"
  by (simp add: moveCurrentResultUp_def Let_def wf_anchor)

lemma getSelectables_moveDown:
  "getSelectables (searchResults (moveCurrentResultDown s)) = getSelectables (searchResults s)"
  by (simp add: moveCurrentResultDown_def Let_def)

lemma getSelectables_moveUp:
  "getSelectables (searchResults (moveCurrentResultUp s)) = getSelectables (searchResults s)"
  by (simp add: moveCurrentResultUp_def Let_def)

text \<open>
  Claim C8. On a list with \<open>n \<ge> 1\<close> selectable entries: from index \<open>i\<close>,
  \<^verbatim>\<open>moveCurrentResultDown\<close> anchors at \<open>(i + 1) mod n\<close> and \<^verbatim>\<open>moveCurrentResultUp\<close> at
  \<open>(i - 1) mod n\<close>; down then up returns to \<open>i\<close>; with no current element, down
  anchors at the first entry and up at the last.
\<close>

theorem cursor_moves_wrap:
  assumes wf: "currentOnlyOnSelectables (searchResults s)"
    and n: "n = int (length (getSelectables (searchResults s)))" "1 \<le> n"
  shows "(0 \<le> cursor s \<longrightarrow>
            cursor (moveCurrentResultDown s) = (cursor s + 1) mod n
          \<and> cursor (moveCurrentResultUp s) = (cursor s - 1) mod n
          \<and> cursor (moveCurrentResultUp (moveCurrentResultDown s)) = cursor s)
       \<and> (cursor s = - 1 \<longrightarrow>
            cursor (moveCurrentResultDown s) = 0 \<and> cursor (moveCurrentResultUp s) = n - 1)"
proof -
  from n have n1: "1 \<le> length (getSelectables (searchResults s))" by simp
  have r: "- 1 \<le> cursor s" "cursor s < n" using cursor_range[of s] n by simp_all
  have down: "cursor (moveCurrentResultDown s) = (if cursor s < n - 1 then cursor s + 1 else 0)"
    using cursor_moveDown[OF wf n1] n by simp
  have up: "cursor (moveCurrentResultUp s) = (if cursor s > 0 then cursor s - 1 else n - 1)"
    using cursor_moveUp[OF wf n1] n by simp
  have n1': "1 \<le> length (getSelectables (searchResults (moveCurrentResultDown s)))"
    using n1 by (simp add: getSelectables_moveDown)
  have updown: "cursor (moveCurrentResultUp (moveCurrentResultDown s)) =
      (if cursor (moveCurrentResultDown s) > 0 then cursor (moveCurrentResultDown s) - 1 else n - 1)"
    using cursor_moveUp[OF wf_moveDown[OF wf] n1'] n by (simp add: getSelectables_moveDown)
  have A: "0 \<le> cursor s \<Longrightarrow> cursor (moveCurrentResultDown s) = (cursor s + 1) mod n"
  proof -
    assume "0 \<le> cursor s"
    show ?thesis
    proof (cases "cursor s < n - 1")
      case True
      with \<open>0 \<le> cursor s\<close> down show ?thesis by simp
    next
      case False
      with r have "cursor s + 1 = n" by simp
      with False down show ?thesis by simp
    qed
  qed
  have B: "0 \<le> cursor s \<Longrightarrow> cursor (moveCurrentResultUp s) = (cursor s - 1) mod n"
  proof -
    assume "0 \<le> cursor s"
    show ?thesis
    proof (cases "cursor s > 0")
      case True
      with r up show ?thesis by simp
    next
      case False
      with \<open>0 \<le> cursor s\<close> have z: "cursor s = 0" by simp
      have "(- 1) mod n = n - 1" using n(2) by (simp add: zmod_minus1)
      with z up show ?thesis by simp
    qed
  qed
  have C: "0 \<le> cursor s \<Longrightarrow> cursor (moveCurrentResultUp (moveCurrentResultDown s)) = cursor s"
    using updown down r by (auto split: if_splits)
  have D: "cursor s = - 1 \<Longrightarrow> cursor (moveCurrentResultDown s) = 0 \<and> cursor (moveCurrentResultUp s) = n - 1"
    using down up n(2) by (auto split: if_splits)
  from A B C D show ?thesis by blast
qed

theorem cursor_moves_wrap_witness:
  "currentOnlyOnSelectables (searchResults (moveCurrentResultDown threeResults))
   \<and> (3::int) = int (length (getSelectables (searchResults (moveCurrentResultDown threeResults))))
   \<and> cursor (moveCurrentResultDown threeResults) = 1
   \<and> cursor (moveCurrentResultDown (moveCurrentResultDown threeResults)) = 2
   \<and> cursor (moveCurrentResultUp (moveCurrentResultDown threeResults)) = 0
   \<and> cursor (moveCurrentResultUp (moveCurrentResultDown (moveCurrentResultDown threeResults))) = 1"
proof -
  let ?s = "moveCurrentResultDown threeResults"
  have wf: "currentOnlyOnSelectables (searchResults ?s)" by code_simp
  have n: "(3::int) = int (length (getSelectables (searchResults ?s)))" by code_simp
  have c: "cursor ?s = 1" by code_simp
  show ?thesis
    using cursor_moves_wrap[OF wf n] wf n c by simp
qed

subsection \<open>Rendering and the cursor\<close>

lemma searchResults_rebuild:
  "searchResults (rebuildSearchResults facet fieldValues params s) =
     (if fetchMore params then searchResults s else [])
     @ (if isNonEmptyString (valueToSearch params) \<and> \<not> isMobileDevice facet
        then [\<lparr>entry = SelectAll, selectable = True, current = False\<rparr>] else [])
     @ buildValueElements (map FacetValue_create fieldValues)
     @ (if isMobileDevice facet
        then [\<lparr>entry = SelectAll, selectable = isNonEmptyString (valueToSearch params), current = False\<rparr>]
        else [])"
  by (simp add: rebuildSearchResults_def Let_def)

lemma wf_append:
  "currentOnlyOnSelectables (xs @ ys) \<longleftrightarrow> currentOnlyOnSelectables xs \<and> currentOnlyOnSelectables ys"
  by (simp add: currentOnlyOnSelectables_def)

lemma wf_buildValueElements: "currentOnlyOnSelectables (buildValueElements vs)"
  by (simp add: currentOnlyOnSelectables_def buildValueElements_def list_all_iff)

lemma wf_rebuild:
  "(fetchMore params \<longrightarrow> currentOnlyOnSelectables (searchResults s)) \<Longrightarrow>
   currentOnlyOnSelectables (searchResults (rebuildSearchResults facet fieldValues params s))"
  by (simp add: searchResults_rebuild wf_append wf_buildValueElements)
     (simp add: currentOnlyOnSelectables_def)





lemma searchResults_positionSearchResults [simp]:
  "searchResults (positionSearchResults facet s) = searchResults s"
  by (simp add: positionSearchResults_def Let_def)




subsection \<open>The debounce timer\<close>

lemma searchCalls_cancel [simp]:
  "searchCalls (cancelAnyPendingSearchOperation s) = searchCalls s"
  by (simp add: cancel_defs)

lemma searchCalls_dismiss [simp]:
  "searchCalls (completelyDismissSearch s) = searchCalls s"
  by (simp add: dismiss_defs)

lemma searchCalls_trigger [simp]:
  "searchCalls (triggerNewFacetSearch params s) = searchCalls s @ [params]"
  by (simp add: triggerNewFacetSearch_def showFacetSearchWaitingAnimation_def Let_def)

text \<open>
  Claim C4. When the timer armed by \<^verbatim>\<open>startNewSearchTimeout\<close> with \<open>params\<close> fires: if
  the input is empty at that time and \<open>params\<close> does not set \<open>searchEvenIfEmpty\<close>, the
  search is completely dismissed (the state is the one \<^verbatim>\<open>completelyDismissSearch\<close>
  gives, and it is a dismissed state) and \<^verbatim>\<open>search\<close> is not called; otherwise
  \<^verbatim>\<open>triggerNewFacetSearch\<close> runs with \<open>params\<close> and \<^verbatim>\<open>search\<close> is called exactly once, with
  \<open>params\<close>.
\<close>

theorem timeout_fires_once:
  assumes "facetSearchTimeout s = Some params"
  shows "(inputValue s = [] \<and> \<not> searchEvenIfEmpty params \<longrightarrow>
            fireSearchTimeout s = completelyDismissSearch s
          \<and> dismissed (fireSearchTimeout s)
          \<and> searchCalls (fireSearchTimeout s) = searchCalls s)
       \<and> (inputValue s \<noteq> [] \<or> searchEvenIfEmpty params \<longrightarrow>
            fireSearchTimeout s = triggerNewFacetSearch params s
          \<and> searchCalls (fireSearchTimeout s) = searchCalls s @ [params])
       \<and> facetSearchTimeout (startNewSearchTimeout params s0) = Some params"
proof -
  have fire: "fireSearchTimeout s = searchTimeoutCallback params s"
    using assms by (simp add: fireSearchTimeout_def)
  have "dismissed (completelyDismissSearch s)"
    by (simp add: dismissed_def dismiss_defs)
  then show ?thesis
    by (simp add: fire searchTimeoutCallback_def startNewSearchTimeout_def
        getValueInInputForFacetSearch_def)
qed

theorem timeout_fires_once_witness:
  "facetSearchTimeout (startNewSearchTimeout (normalSearch []) (initial\<lparr>inputValue := ''abc''\<rparr>))
     = Some (normalSearch [])
   \<and> searchCalls (fireSearchTimeout
        (startNewSearchTimeout (normalSearch []) (initial\<lparr>inputValue := ''abc''\<rparr>)))
     = [normalSearch []]
   \<and> facetSearchTimeout (startNewSearchTimeout (normalSearch []) threeResults)
     = Some (normalSearch [])
   \<and> fireSearchTimeout (startNewSearchTimeout (normalSearch []) threeResults)
     = completelyDismissSearch (startNewSearchTimeout (normalSearch []) threeResults)
   \<and> dismissed (fireSearchTimeout (startNewSearchTimeout (normalSearch []) threeResults))
   \<and> \<not> dismissed (startNewSearchTimeout (normalSearch []) threeResults)
   \<and> searchCalls (fireSearchTimeout (startNewSearchTimeout (normalSearch []) threeResults)) = []"
proof -
  let ?s = "startNewSearchTimeout (normalSearch []) (initial\<lparr>inputValue := ''abc''\<rparr>)"
  let ?e = "startNewSearchTimeout (normalSearch []) threeResults"
  have a: "facetSearchTimeout ?s = Some (normalSearch [])"
    by (simp add: startNewSearchTimeout_def)
  have b: "facetSearchTimeout ?e = Some (normalSearch [])"
    by (simp add: startNewSearchTimeout_def)
  have i: "inputValue ?s \<noteq> []" "\<not> searchEvenIfEmpty (normalSearch [])" "searchCalls ?s = []"
    by (simp_all add: startNewSearchTimeout_def cancel_defs initial_def normalSearch_def)
  have j: "inputValue ?e = []" "searchCalls ?e = []" "\<not> dismissed ?e"
    by code_simp+
  from timeout_fires_once[OF a] i
  have A: "searchCalls (fireSearchTimeout ?s) = [normalSearch []]"
    by simp
  from timeout_fires_once[OF b] j(1) i(2)
  have B: "fireSearchTimeout ?e = completelyDismissSearch ?e
      \<and> dismissed (fireSearchTimeout ?e)
      \<and> searchCalls (fireSearchTimeout ?e) = searchCalls ?e"
    by blast
  from B[THEN conjunct2, THEN conjunct2] j(2)
  have C: "searchCalls (fireSearchTimeout ?e) = []"
    by (rule trans)
  from a A b B j(3) C show ?thesis
    by blast
qed

subsection \<open>Pagination on scroll\<close>

text \<open>
  What the guard of \<^verbatim>\<open>handleFacetSearchResultsScroll\<close> gives. The handler changes
  nothing, and so calls \<^verbatim>\<open>search\<close> zero times, when the field \<open>facetSearchPromise\<close> holds a
  request, when the input is not empty or when \<open>moreValuesToFetch\<close> is false. If it calls
  \<^verbatim>\<open>search\<close> at all, then the distance from the bottom, as the engine computes it, is
  less than half the height of the list, it calls it once, and the parameters have
  \<open>fetchMore\<close> set and the values shown in the list as exclusions.
\<close>

lemma scroll_guard:
  "(facetSearchPromise s \<noteq> None \<or> inputValue s \<noteq> [] \<or> \<not> moreValuesToFetch s \<longrightarrow>
      handleFacetSearchResultsScroll facet elementHeight scrollHeight scrollTop s = s)
   \<and> (searchCalls (handleFacetSearchResultsScroll facet elementHeight scrollHeight scrollTop s)
         = searchCalls s
       \<or> (doubleSub facet scrollHeight (doubleAdd facet scrollTop elementHeight)
            < doubleDiv facet elementHeight 2
          \<and> (\<exists>params.
                searchCalls (handleFacetSearchResultsScroll facet elementHeight scrollHeight scrollTop s)
                  = searchCalls s @ [params]
              \<and> fetchMore params
              \<and> alwaysExclude params = shownValues (searchResults s)
              \<and> valueToSearch params = inputValue s)))"
  by (simp add: handleFacetSearchResultsScroll_def getValueInInputForFacetSearch_def Let_def
      buildParamsForFetchingMore_def buildParamsForExcludingCurrentlyDisplayedValues_def
      setValueToSearch_def excludeCurrentlyDisplayedValuesInSearch_def newFacetSearchParameters_def)

text \<open>
  Claim C6 does not hold of the source. The guard reads the field \<open>facetSearchPromise\<close>,
  and the callbacks of a superseded promise reset that field when their promise
  settles. In \<open>replaceInFlight\<close> the field holds the current request (promise 2) and a
  scroll near the bottom calls \<^verbatim>\<open>search\<close> zero times. Once the superseded promise 1 is
  rejected without an error value, or resolved, the field is undefined although
  promise 2 is still pending, and the same scroll issues a \<open>fetchMore\<close> request.
\<close>

theorem scroll_paginates_while_request_pending:
  "facetSearchPromise replaceInFlight = Some 2
   \<and> map fst (handlers replaceInFlight) = [1, 2]
   \<and> map fetchMore (searchCalls (step sampleFacet (ResultsScrolled 100 120 10) replaceInFlight))
       = [False, False, False]
   \<and> facetSearchPromise (step sampleFacet (PromiseRejects 1 None) replaceInFlight) = None
   \<and> map fst (handlers (step sampleFacet (PromiseRejects 1 None) replaceInFlight)) = [2]
   \<and> moreValuesToFetch (step sampleFacet (PromiseRejects 1 None) replaceInFlight)
   \<and> map fetchMore (searchCalls
        (run sampleFacet [PromiseRejects 1 None, ResultsScrolled 100 120 10] replaceInFlight))
       = [False, False, False, True]
   \<and> map fst (handlers
        (run sampleFacet [PromiseRejects 1 None, ResultsScrolled 100 120 10] replaceInFlight))
       = [2, 3]
   \<and> map fetchMore (searchCalls
        (run sampleFacet
          [PromiseResolves 1 [fieldValue ''v''], ResultsScrolled 100 120 10] replaceInFlight))
       = [False, False, False, True]"
  by code_simp

subsection \<open>Selecting all matching values\<close>

lemma dismissed_dismiss: "dismissed (completelyDismissSearch s)"
  by (simp add: dismissed_def dismiss_defs)

lemma dismissed_iff: "dismissed s \<longleftrightarrow> completelyDismissSearch s = s"
proof
  assume "dismissed s"
  then show "completelyDismissSearch s = s"
    by (simp add: dismissed_def dismiss_defs)
next
  assume "completelyDismissSearch s = s"
  then show "dismissed s" using dismissed_dismiss[of s] by simp
qed

lemma map_of_fresh:
  assumes "list_all (\<lambda>h. fst h < (n::nat)) hs"
  shows "map_of (hs @ [(n, h)]) n = Some h"
proof -
  from assms have "n \<notin> fst ` set hs" by (fastforce simp: list_all_iff)
  then have "map_of hs n = None" by (simp add: map_of_eq_None_iff)
  then show ?thesis by (simp add: map_add_def)
qed

lemma handlers_dismiss [simp]: "handlers (completelyDismissSearch s) = handlers s"
  by (simp add: dismiss_defs)

lemma allResultsSelected_dismiss [simp]:
  "allResultsSelected (completelyDismissSearch s) = allResultsSelected s"
  by (simp add: dismiss_defs)

lemma markSelected_selected: "selected (markSelected facet v) \<and> \<not> excluded (markSelected facet v)"
  by (simp add: markSelected_def)

text \<open>
  Claim C9. \<^verbatim>\<open>selectAllValuesMatchingSearch\<close> calls \<^verbatim>\<open>search\<close> once, at once (no timer
  is armed), with a cap of 1000 results and without \<open>fetchMore\<close>, and leaves the search
  dismissed whatever becomes of the request. When the request succeeds with \<open>k\<close> values,
  \<^verbatim>\<open>processFacetSearchAllResultsSelected\<close> is called exactly once with \<open>k\<close> values, each
  selected and not excluded; when it fails, it is not called.
\<close>

theorem selectAll_bulk:
  assumes "pendingPromisesIssued s"
    and "after = selectAllValuesMatchingSearch facet s"
    and "promise = length (searchCalls s)"
  shows "(\<exists>params. searchCalls after = searchCalls s @ [params] \<and> nbResults params = 1000
            \<and> \<not> fetchMore params \<and> valueToSearch params = inputValue s)
       \<and> facetSearchTimeout after = None
       \<and> dismissed after
       \<and> allResultsSelected after = allResultsSelected s
       \<and> allResultsSelected (resolvePromise facet promise fieldValues after)
            = allResultsSelected s @ [map (markSelected facet) fieldValues]
       \<and> length (map (markSelected facet) fieldValues) = length fieldValues
       \<and> list_all (\<lambda>v. selected v \<and> \<not> excluded v) (map (markSelected facet) fieldValues)
       \<and> dismissed (resolvePromise facet promise fieldValues after)
       \<and> allResultsSelected (rejectPromise promise error after) = allResultsSelected s
       \<and> dismissed (rejectPromise promise error after)"
proof -
  let ?params = "setValueToSearch (inputValue s)
      ((newFacetSearchParameters facet)\<lparr>nbResults := 1000\<rparr>)"
  let ?s2 = "s\<lparr>facetWaitingAnimation := True, searchCalls := searchCalls s @ [?params],
      handlers := handlers s @ [(promise, SelectAllHandlers)]\<rparr>"
  have after: "after = completelyDismissSearch ?s2"
    using assms(2,3)
    by (simp add: selectAllValuesMatchingSearch_def Let_def getValueInInputForFacetSearch_def)
  have req: "searchCalls after = searchCalls s @ [?params]"
    by (simp add: after)
  have par: "nbResults ?params = 1000 \<and> \<not> fetchMore ?params \<and> valueToSearch ?params = inputValue s"
    by (simp add: setValueToSearch_def newFacetSearchParameters_def)
  have d: "dismissed after" by (simp add: after dismissed_dismiss)
  then have t: "facetSearchTimeout after = None" by (simp add: dismissed_def)
  have h: "map_of (handlers after) promise = Some SelectAllHandlers"
    using assms(1,3) map_of_fresh[of "length (searchCalls s)" "handlers s" SelectAllHandlers]
    by (simp add: after pendingPromisesIssued_def del: map_of_append)
  have ars: "allResultsSelected after = allResultsSelected s" by (simp add: after)
  let ?a1 = "after\<lparr>handlers := withoutPromise promise (handlers after)\<rparr>"
  have res: "resolvePromise facet promise fieldValues after = selectAllThen facet fieldValues ?a1"
    using h by (simp add: resolvePromise_def Let_def)
  have rej: "rejectPromise promise error after = ?a1"
    using h by (simp add: rejectPromise_def Let_def)
  have d1: "dismissed ?a1" using d by (simp add: dismissed_def)
  have "dismissed (selectAllThen facet fieldValues ?a1)"
    using dismissed_dismiss[of ?a1] by (simp add: selectAllThen_def Let_def dismissed_def)
  moreover have "allResultsSelected (selectAllThen facet fieldValues ?a1)
      = allResultsSelected s @ [map (markSelected facet) fieldValues]"
    by (simp add: selectAllThen_def Let_def ars)
  moreover have "list_all (\<lambda>v. selected v \<and> \<not> excluded v) (map (markSelected facet) fieldValues)"
    by (simp add: list_all_iff markSelected_selected)
  ultimately show ?thesis
    using req par d t ars d1 by (auto simp: res rej)
qed


theorem selectAll_bulk_witness:
  "pendingPromisesIssued (noResultsFor ''ab'')
   \<and> map valueToSearch (searchCalls (selectAllValuesMatchingSearch sampleFacet (noResultsFor ''ab'')))
       = [''ab'']
   \<and> dismissed (selectAllValuesMatchingSearch sampleFacet (noResultsFor ''ab''))
   \<and> allResultsSelected
        (resolvePromise sampleFacet 0 [fieldValue ''abc'', fieldValue ''abd'', fieldValue ''abe'']
          (selectAllValuesMatchingSearch sampleFacet (noResultsFor ''ab'')))
       = [[\<lparr>facetValue_value = ''abc'', selected = True, excluded = False\<rparr>,
           \<lparr>facetValue_value = ''abd'', selected = True, excluded = False\<rparr>,
           \<lparr>facetValue_value = ''abe'', selected = True, excluded = False\<rparr>]]"
proof -
  have p: "pendingPromisesIssued (noResultsFor ''ab'')" by code_simp
  have n: "0 = length (searchCalls (noResultsFor ''ab''))" by code_simp
  have a: "allResultsSelected (noResultsFor ''ab'') = []" by code_simp
  have m: "map (markSelected sampleFacet)
        [fieldValue ''abc'', fieldValue ''abd'', fieldValue ''abe'']
      = [\<lparr>facetValue_value = ''abc'', selected = True, excluded = False\<rparr>,
         \<lparr>facetValue_value = ''abd'', selected = True, excluded = False\<rparr>,
         \<lparr>facetValue_value = ''abe'', selected = True, excluded = False\<rparr>]"
    by code_simp
  have v: "map valueToSearch (searchCalls (selectAllValuesMatchingSearch sampleFacet (noResultsFor ''ab'')))
       = [''ab'']"
    by code_simp
  show ?thesis
    using selectAll_bulk[OF p refl n, of sampleFacet
        "[fieldValue ''abc'', fieldValue ''abd'', fieldValue ''abe'']"] p a m v
    by simp
qed

subsection \<open>The displayed values\<close>

lemma keeps_same: "currentlyDisplayedResults s' = currentlyDisplayedResults s \<Longrightarrow> keepsDisplayed s s'"
  by (auto simp: keepsDisplayed_def displayed_def split: option.splits)

lemma keeps_dismissed: "dismissed s' \<Longrightarrow> keepsDisplayed s s'"
  by (auto simp: keepsDisplayed_def dismissed_def split: option.splits)

lemma displayed_rebuild:
  "currentlyDisplayedResults (rebuildSearchResults facet fieldValues params s)
     = Some (displayed s @ map fieldValue_value fieldValues)"
  by (simp add: rebuildSearchResults_def Let_def displayed_def FacetValue_create_def comp_def
      split: option.splits)

lemma cdr_cancel [simp]:
  "currentlyDisplayedResults (cancelAnyPendingSearchOperation s) = currentlyDisplayedResults s"
  by (simp add: cancel_defs)

lemma cdr_trigger [simp]:
  "currentlyDisplayedResults (triggerNewFacetSearch params s) = currentlyDisplayedResults s"
  by (simp add: triggerNewFacetSearch_def Let_def showFacetSearchWaitingAnimation_def)

lemma cdr_startTimeout [simp]:
  "currentlyDisplayedResults (startNewSearchTimeout params s) = currentlyDisplayedResults s"
  by (simp add: startNewSearchTimeout_def)

lemma cdr_makeCurrent [simp]:
  "currentlyDisplayedResults (makeCurrentResult r s) = currentlyDisplayedResults s"
  by (simp add: makeCurrentResult_def)

lemma cdr_moves [simp]:
  "currentlyDisplayedResults (moveCurrentResultDown s) = currentlyDisplayedResults s"
  "currentlyDisplayedResults (moveCurrentResultUp s) = currentlyDisplayedResults s"
  by (simp_all add: moveCurrentResultDown_def moveCurrentResultUp_def Let_def)

lemma cdr_position [simp]:
  "currentlyDisplayedResults (positionSearchResults facet s) = currentlyDisplayedResults s"
  by (simp add: positionSearchResults_def Let_def)

lemma grows_keeps: "grows s s' \<Longrightarrow> keepsDisplayed s s'"
  by (auto simp: grows_def keepsDisplayed_def displayed_def split: option.splits)

lemma grows_process:
  "grows s (processNewFacetSearchResults facet fieldValues params s)"
proof (cases "reorderValues facet fieldValues = []")
  case True
  then show ?thesis
    by (simp add: grows_def processNewFacetSearchResults_def hideSearchResultsElement_def)
next
  case False
  then have "currentlyDisplayedResults (processNewFacetSearchResults facet fieldValues params s)
      = Some (displayed s @ map fieldValue_value (reorderValues facet fieldValues))"
    by (simp add: processNewFacetSearchResults_def Let_def makeFirstSearchResultTheCurrentOne_def
        showSearchResultsElement_def displayed_rebuild displayed_def)
  then show ?thesis by (simp add: grows_def)
qed

lemma grows_then: "grows s (facetSearchThen facet params fieldValues s)"
  using grows_process[of s facet fieldValues params]
  by (simp add: facetSearchThen_def Let_def grows_def hideFacetSearchWaitingAnimation_def)

lemma dismissed_selectAll: "dismissed (selectAllValuesMatchingSearch facet s)"
  by (simp add: selectAllValuesMatchingSearch_def Let_def dismissed_dismiss)

lemma dismissed_selectAllThen: "dismissed (selectAllThen facet fieldValues s)"
  using dismissed_dismiss[of s] by (simp add: selectAllThen_def Let_def dismissed_def)

lemma keeps_resolve: "keepsDisplayed s (resolvePromise facet promise fieldValues s)"
proof (cases "map_of (handlers s) promise")
  case None
  then show ?thesis by (simp add: resolvePromise_def keeps_same)
next
  case (Some h)
  let ?s1 = "s\<lparr>handlers := withoutPromise promise (handlers s)\<rparr>"
  show ?thesis
  proof (cases h)
    case (FacetSearchHandlers params)
    have "grows ?s1 (facetSearchThen facet params fieldValues ?s1)" by (rule grows_then)
    then have "grows s (facetSearchThen facet params fieldValues ?s1)"
      by (simp add: grows_def displayed_def)
    with Some FacetSearchHandlers show ?thesis
      by (simp add: resolvePromise_def Let_def grows_keeps)
  next
    case SelectAllHandlers
    with Some show ?thesis
      by (simp add: resolvePromise_def Let_def keeps_dismissed dismissed_selectAllThen)
  qed
qed

lemma keeps_reject: "keepsDisplayed s (rejectPromise promise error s)"
  by (intro keeps_same)
     (simp add: rejectPromise_def Let_def facetSearchCatch_def hideFacetSearchWaitingAnimation_def
       split: option.splits handler.splits)

lemma keeps_timeout: "keepsDisplayed s (fireSearchTimeout s)"
proof (cases "facetSearchTimeout s")
  case None
  then show ?thesis by (simp add: fireSearchTimeout_def keeps_same)
next
  case (Some params)
  then show ?thesis
    by (simp add: fireSearchTimeout_def searchTimeoutCallback_def Let_def keeps_same
        keeps_dismissed dismissed_dismiss)
qed

lemma dismissed_input: "dismissed s \<Longrightarrow> dismissed (s\<lparr>inputValue := []\<rparr>)"
  by (simp add: dismissed_def)

lemma keeps_from:
  "currentlyDisplayedResults t = currentlyDisplayedResults s \<Longrightarrow>
   keepsDisplayed t s' = keepsDisplayed s s'"
  by (simp add: keepsDisplayed_def displayed_def cong: option.case_cong)

lemma keeps_enter: "keepsDisplayed s (keyboardNavigationEnterPressed facet event isEmpty s)"
  by (simp add: keyboardNavigationEnterPressed_def keeps_same keeps_dismissed dismissed_dismiss
      dismissed_selectAll split: option.splits)

lemma keeps_delete: "keepsDisplayed s (keyboardNavigationDeletePressed event s)"
  by (simp add: keyboardNavigationDeletePressed_def keeps_same keeps_dismissed dismissed_dismiss
      dismissed_input split: option.splits)

lemma keeps_navigation: "keepsDisplayed s (handleKeyboardNavigation facet event isEmpty s)"
  by (cases "which event")
     (simp_all add: handleKeyboardNavigation_def keeps_enter keeps_delete keeps_same
       keeps_dismissed dismissed_dismiss Let_def)

lemma keeps_keyUp: "keepsDisplayed s (handleFacetSearchKeyUp facet event s)"
proof -
  let ?s1 = "showOrHideClearElement (inputValue s = []) s"
  have c: "currentlyDisplayedResults ?s1 = currentlyDisplayedResults s"
    by (simp add: showOrHideClearElement_def)
  have "keepsDisplayed ?s1 (handleFacetSearchKeyUp facet event s)"
    by (simp add: handleFacetSearchKeyUp_def Let_def keeps_navigation keeps_same)
  then show ?thesis using keeps_from[OF c] by simp
qed

text \<open>
  Claim C10. Every render, a replace as well as an append, concatenates the rendered
  values onto \<open>currentlyDisplayedResults\<close>; and over any step of the event loop the
  list keeps its old values as a prefix, unless the step leaves the search completely
  dismissed, which is the only way for the list to become undefined.
\<close>

theorem displayed_only_grows:
  "currentlyDisplayedResults (rebuildSearchResults facet fieldValues params s)
     = Some (displayed s @ map fieldValue_value fieldValues)
   \<and> keepsDisplayed s (step facet ev s)"
proof -
  have "keepsDisplayed s (step facet ev s)"
  proof (cases ev)
    case (KeyUp event)
    then show ?thesis by (simp add: keeps_keyUp)
  next
    case (PromiseResolves promise fieldValues)
    then show ?thesis by (simp add: keeps_resolve)
  next
    case (PromiseRejects promise error)
    then show ?thesis by (simp add: keeps_reject)
  next
    case TimeoutFires
    then show ?thesis by (simp add: keeps_timeout)
  qed (simp_all add: keeps_same keeps_dismissed dismissed_dismiss dismissed_selectAll
        handleFacetSearchFocus_def handleClickElsewhere_def handleFacetSearchClear_def
        handleFacetSearchResultsScroll_def Let_def)
  then show ?thesis by (simp add: displayed_rebuild)
qed

theorem displayed_only_grows_witness:
  "currentlyDisplayedResults
      (rebuildSearchResults sampleFacet [fieldValue ''w''] (normalSearch ''w'') threeResults)
     = Some [''x'', ''y'', ''z'', ''w'']
   \<and> keepsDisplayed threeResults (step sampleFacet (KeyUp (plainKey ESCAPE)) threeResults)
   \<and> currentlyDisplayedResults (step sampleFacet (KeyUp (plainKey ESCAPE)) threeResults) = None"
proof -
  have d: "displayed threeResults = [''x'', ''y'', ''z'']" by code_simp
  have n: "currentlyDisplayedResults (step sampleFacet (KeyUp (plainKey ESCAPE)) threeResults) = None"
    by code_simp
  show ?thesis
    using displayed_only_grows[of sampleFacet "[fieldValue ''w'']" "normalSearch ''w''"
        threeResults "KeyUp (plainKey ESCAPE)"] d n
    by (simp add: fieldValue_def)
qed

subsection \<open>The flag moreValuesToFetch\<close>

lemma dismissed_more: "dismissed s \<Longrightarrow> moreValuesToFetch s"
  by (simp add: dismissed_def)

lemma more_cancel [simp]:
  "moreValuesToFetch (cancelAnyPendingSearchOperation s) = moreValuesToFetch s"
  by (simp add: cancel_defs)

lemma more_trigger [simp]:
  "moreValuesToFetch (triggerNewFacetSearch params s) = moreValuesToFetch s"
  by (simp add: triggerNewFacetSearch_def Let_def showFacetSearchWaitingAnimation_def)

lemma more_startTimeout [simp]:
  "moreValuesToFetch (startNewSearchTimeout params s) = moreValuesToFetch s"
  by (simp add: startNewSearchTimeout_def)

lemma more_makeCurrent [simp]:
  "moreValuesToFetch (makeCurrentResult r s) = moreValuesToFetch s"
  by (simp add: makeCurrentResult_def)

lemma more_moves [simp]:
  "moreValuesToFetch (moveCurrentResultDown s) = moreValuesToFetch s"
  "moreValuesToFetch (moveCurrentResultUp s) = moreValuesToFetch s"
  by (simp_all add: moveCurrentResultDown_def moveCurrentResultUp_def Let_def)

lemma more_position [simp]:
  "moreValuesToFetch (positionSearchResults facet s) = moreValuesToFetch s"
  by (simp add: positionSearchResults_def Let_def)

lemma more_process:
  "moreValuesToFetch (processNewFacetSearchResults facet fieldValues params s) \<Longrightarrow>
   moreValuesToFetch s"
  by (simp add: processNewFacetSearchResults_def Let_def makeFirstSearchResultTheCurrentOne_def
      showSearchResultsElement_def rebuildSearchResults_def hideSearchResultsElement_def
      split: if_splits)

lemma process_nothing_more:
  "fetchMore params \<Longrightarrow> reorderValues facet fieldValues = [] \<Longrightarrow>
   processNewFacetSearchResults facet fieldValues params s = s\<lparr>moreValuesToFetch := False\<rparr>"
  by (simp add: processNewFacetSearchResults_def)

lemma more_resolve:
  "moreValuesToFetch (resolvePromise facet promise fieldValues s) \<Longrightarrow>
   moreValuesToFetch s \<or> dismissed (resolvePromise facet promise fieldValues s)"
proof (cases "map_of (handlers s) promise")
  case None
  assume "moreValuesToFetch (resolvePromise facet promise fieldValues s)"
  with None show ?thesis by (simp add: resolvePromise_def)
next
  case (Some h)
  assume m: "moreValuesToFetch (resolvePromise facet promise fieldValues s)"
  show ?thesis
  proof (cases h)
    case (FacetSearchHandlers params)
    with Some m have "moreValuesToFetch (processNewFacetSearchResults facet fieldValues params
        (s\<lparr>handlers := withoutPromise promise (handlers s)\<rparr>))"
      by (simp add: resolvePromise_def Let_def facetSearchThen_def hideFacetSearchWaitingAnimation_def)
    from more_process[OF this] show ?thesis by simp
  next
    case SelectAllHandlers
    with Some show ?thesis
      by (simp add: resolvePromise_def Let_def dismissed_selectAllThen)
  qed
qed

lemma more_reject: "moreValuesToFetch (rejectPromise promise error s) = moreValuesToFetch s"
  by (simp add: rejectPromise_def Let_def facetSearchCatch_def hideFacetSearchWaitingAnimation_def
       split: option.splits handler.splits)

lemma more_timeout:
  "moreValuesToFetch (fireSearchTimeout s) \<Longrightarrow> moreValuesToFetch s \<or> dismissed (fireSearchTimeout s)"
  by (cases "facetSearchTimeout s")
     (simp_all add: fireSearchTimeout_def searchTimeoutCallback_def Let_def dismissed_dismiss
       split: if_splits)

lemma more_enter:
  "moreValuesToFetch s \<or> dismissed (keyboardNavigationEnterPressed facet event isEmpty s)
   \<or> \<not> moreValuesToFetch (keyboardNavigationEnterPressed facet event isEmpty s)"
  by (auto simp: keyboardNavigationEnterPressed_def dismissed_dismiss dismissed_selectAll
      split: option.splits)

lemma more_delete:
  "moreValuesToFetch s \<or> dismissed (keyboardNavigationDeletePressed event s)
   \<or> \<not> moreValuesToFetch (keyboardNavigationDeletePressed event s)"
  by (auto simp: keyboardNavigationDeletePressed_def dismissed_dismiss dismissed_input
      split: option.splits)

lemma more_keyUp:
  assumes "moreValuesToFetch (handleFacetSearchKeyUp facet event s)"
  shows "moreValuesToFetch s \<or> resetsMore facet (KeyUp event) (handleFacetSearchKeyUp facet event s)"
proof (cases "isMobileDevice facet")
  case True
  with assms show ?thesis
    by (simp add: handleFacetSearchKeyUp_def Let_def showOrHideClearElement_def split: if_splits)
next
  case False
  let ?s1 = "showOrHideClearElement (inputValue s = []) s"
  have m1: "moreValuesToFetch ?s1 = moreValuesToFetch s"
    by (simp add: showOrHideClearElement_def)
  have eq: "handleFacetSearchKeyUp facet event s
      = handleKeyboardNavigation facet event (inputValue s = []) ?s1"
    using False by (simp add: handleFacetSearchKeyUp_def Let_def)
  show ?thesis
  proof (cases "which event")
    case ENTER
    with more_enter[of ?s1 facet event "inputValue s = []"] assms m1 show ?thesis
      by (auto simp: eq handleKeyboardNavigation_def resetsMore_def)
  next
    case DELETE
    with more_delete[of ?s1 event] assms m1 show ?thesis
      by (auto simp: eq handleKeyboardNavigation_def resetsMore_def)
  next
    case ESCAPE
    then show ?thesis
      by (simp add: eq handleKeyboardNavigation_def resetsMore_def dismissed_dismiss)
  next
    case DOWN_ARROW
    with assms m1 show ?thesis by (simp add: eq handleKeyboardNavigation_def)
  next
    case UP_ARROW
    with assms m1 show ?thesis by (simp add: eq handleKeyboardNavigation_def)
  next
    case OTHER_KEY
    with False show ?thesis by (simp add: resetsMore_def)
  qed
qed

lemma more_step:
  assumes "moreValuesToFetch (step facet ev s)"
  shows "moreValuesToFetch s \<or> resetsMore facet ev (step facet ev s)"
proof (cases ev)
  case (KeyUp event)
  with assms more_keyUp[of facet event s] show ?thesis by simp
next
  case (PromiseResolves promise fieldValues)
  with assms more_resolve[of facet promise fieldValues s] show ?thesis
    by (auto simp: resetsMore_def)
next
  case (PromiseRejects promise error)
  with assms show ?thesis by (simp add: more_reject)
next
  case TimeoutFires
  with assms more_timeout[of s] show ?thesis by (auto simp: resetsMore_def)
next
  case (InputEdited str)
  with assms show ?thesis by simp
next
  case FocusInput
  with assms show ?thesis by (simp add: handleFacetSearchFocus_def split: if_splits)
next
  case (ClickElsewhere b)
  with assms show ?thesis
    by (simp add: handleClickElsewhere_def resetsMore_def dismissed_dismiss split: if_splits)
next
  case ClickClear
  then show ?thesis by (simp add: handleFacetSearchClear_def resetsMore_def dismissed_dismiss)
next
  case (ResultsScrolled a b c)
  with assms show ?thesis
    by (simp add: handleFacetSearchResultsScroll_def Let_def split: if_splits)
next
  case (MouseMoveOn i)
  with assms show ?thesis by (simp split: if_splits)
next
  case (ReleaseOn i)
  with assms show ?thesis by (simp add: resetsMore_def dismissed_dismiss split: if_splits)
next
  case (ClickSelectAll i)
  with assms show ?thesis by (simp add: resetsMore_def dismissed_selectAll split: if_splits)
next
  case WindowResized
  with assms show ?thesis by (simp split: if_splits)
next
  case ModalValidated
  then show ?thesis by (simp add: resetsMore_def dismissed_dismiss)
qed

text \<open>
  Claim C5, as amended. A \<open>fetchMore\<close> request that completes with no values sets
  \<open>moreValuesToFetch\<close> to false, and a scroll changes nothing while it is false. Over a
  step of the event loop the flag becomes true again only when the step leaves the
  search completely dismissed or is the keyup of a key other than Enter, Delete, Escape,
  Up and Down on a desktop facet. \<^verbatim>\<open>completelyDismissSearch\<close> sets it;
  \<^verbatim>\<open>triggerNewFacetSearch\<close> leaves it as it is and
  \<^verbatim>\<open>processNewFacetSearchResults\<close> never sets it.
\<close>

theorem moreValuesToFetch_resets:
  "(fetchMore params \<and> reorderValues facet fieldValues = [] \<longrightarrow>
      processNewFacetSearchResults facet fieldValues params s = s\<lparr>moreValuesToFetch := False\<rparr>)
   \<and> (\<not> moreValuesToFetch s \<longrightarrow>
      step facet (ResultsScrolled elementHeight scrollHeight scrollTop) s = s)
   \<and> (moreValuesToFetch (step facet ev s) \<longrightarrow>
      moreValuesToFetch s \<or> resetsMore facet ev (step facet ev s))
   \<and> moreValuesToFetch (completelyDismissSearch s)
   \<and> moreValuesToFetch (triggerNewFacetSearch params s) = moreValuesToFetch s
   \<and> (moreValuesToFetch (processNewFacetSearchResults facet fieldValues params s) \<longrightarrow>
      moreValuesToFetch s)"
  using more_step[of facet ev s] more_process[of facet fieldValues params s]
    dismissed_more[OF dismissed_dismiss, of s]
  by (auto simp: process_nothing_more handleFacetSearchResultsScroll_def)

theorem moreValuesToFetch_resets_witness:
  "fetchMore (fetchMoreSearch [''x'', ''y'', ''z''])
   \<and> reorderValues sampleFacet [] = []
   \<and> \<not> moreValuesToFetch
        (processNewFacetSearchResults sampleFacet [] (fetchMoreSearch [''x'', ''y'', ''z'']) threeResults)
   \<and> step sampleFacet (ResultsScrolled 100 120 10) paginationExhausted = paginationExhausted
   \<and> moreValuesToFetch (step sampleFacet (KeyUp (plainKey OTHER_KEY)) paginationExhausted)
   \<and> resetsMore sampleFacet (KeyUp (plainKey OTHER_KEY))
        (step sampleFacet (KeyUp (plainKey OTHER_KEY)) paginationExhausted)"
proof -
  have a: "fetchMore (fetchMoreSearch [''x'', ''y'', ''z''])" "reorderValues sampleFacet [] = []"
    by (simp_all add: fetchMoreSearch_def sampleFacet_def)
  have b: "\<not> moreValuesToFetch paginationExhausted" by code_simp
  have c: "moreValuesToFetch (step sampleFacet (KeyUp (plainKey OTHER_KEY)) paginationExhausted)"
    by code_simp
  show ?thesis
    using moreValuesToFetch_resets[of "fetchMoreSearch [''x'', ''y'', ''z'']" sampleFacet "[]"
        threeResults 100 120 10 "KeyUp (plainKey OTHER_KEY)"]
      moreValuesToFetch_resets[of "fetchMoreSearch [''x'', ''y'', ''z'']" sampleFacet "[]"
        paginationExhausted 100 120 10 "KeyUp (plainKey OTHER_KEY)"]
      a b c
    by simp
qed

text \<open>
  The claim as stated fails both ways: Escape sets the flag without any search, and a
  replace search started with Shift+Enter and rendered leaves it false.
\<close>

theorem escape_resets_moreValuesToFetch:
  "\<not> moreValuesToFetch paginationExhausted
   \<and> moreValuesToFetch (step sampleFacet (KeyUp (plainKey ESCAPE)) paginationExhausted)
   \<and> searchCalls (step sampleFacet (KeyUp (plainKey ESCAPE)) paginationExhausted)
       = searchCalls paginationExhausted
   \<and> map fetchMore (searchCalls
        (run sampleFacet [KeyUp shiftEnter, PromiseResolves 2 [fieldValue ''w'']] paginationExhausted))
       = [False, True, False]
   \<and> \<not> moreValuesToFetch
        (run sampleFacet [KeyUp shiftEnter, PromiseResolves 2 [fieldValue ''w'']] paginationExhausted)"
  by code_simp

subsection \<open>Failed and cancelled requests\<close>

text \<open>
  What the catch callback of \<^verbatim>\<open>triggerNewFacetSearch\<close> does to the state. With an error
  value the waiting animation is hidden and the pending-request handle is reset; every
  other field is left as it was: nothing is dismissed, the rendered results stay and
  \<^verbatim>\<open>search\<close> is not called again. Without an error value the waiting animation is left
  as it was too, and the handle is reset all the same.
\<close>

lemma rejection_frame:
  assumes "map_of (handlers s) promise = Some (FacetSearchHandlers params)"
  shows "rejectPromise promise (Some error) s =
           s\<lparr>handlers := withoutPromise promise (handlers s),
             showingFacetSearchWaitAnimation := False, facetSearchPromise := None\<rparr>
       \<and> rejectPromise promise None s =
           s\<lparr>handlers := withoutPromise promise (handlers s), facetSearchPromise := None\<rparr>"
  using assms
  by (simp add: rejectPromise_def Let_def facetSearchCatch_def hideFacetSearchWaitingAnimation_def)

text \<open>
  Claim C3 does not hold of the source. In \<open>twoSearches\<close> the request for \<open>a\<close>
  (promise 0) was cancelled by the request for \<open>ab\<close> (promise 1), which is pending and
  held in \<open>facetSearchPromise\<close>. When promise 0 is rejected without an error value, the
  waiting animation is left shown, as the claim says, but something does happen: the
  callback resets \<open>facetSearchPromise\<close>, the handle of the pending request for \<open>ab\<close>.
\<close>

theorem cancelled_rejection_clears_handle:
  "map valueToSearch (searchCalls twoSearches) = [''a'', ''ab'']
   \<and> facetSearchPromise twoSearches = Some 1
   \<and> map fst (handlers twoSearches) = [0, 1]
   \<and> showingFacetSearchWaitAnimation twoSearches
   \<and> facetSearchPromise (rejectPromise 0 None twoSearches) = None
   \<and> map fst (handlers (rejectPromise 0 None twoSearches)) = [1]
   \<and> showingFacetSearchWaitAnimation (rejectPromise 0 None twoSearches)"
  by code_simp

subsection \<open>Superseded requests\<close>

text \<open>
  Claim C1 does not hold of the source. In \<open>twoSearches\<close> two searches are triggered,
  for \<open>a\<close> and then for \<open>ab\<close>; \<^verbatim>\<open>cancelAnyPendingSearchOperation\<close> has forgotten the first promise but its
  callbacks are still attached. When the first promise resolves, its values are
  rendered as a replace, the waiting animation is hidden and the handle of the second
  request is reset; resolving after the second request, it replaces that request's
  results.
\<close>

theorem superseded_request_renders:
  "map valueToSearch (searchCalls twoSearches) = [''a'', ''ab'']
   \<and> facetSearchPromise twoSearches = Some 1
   \<and> shownValues (searchResults
        (run sampleFacet [PromiseResolves 0 [fieldValue ''axe'']] twoSearches)) = [''axe'']
   \<and> facetSearchPromise (run sampleFacet [PromiseResolves 0 [fieldValue ''axe'']] twoSearches) = None
   \<and> \<not> showingFacetSearchWaitAnimation
        (run sampleFacet [PromiseResolves 0 [fieldValue ''axe'']] twoSearches)
   \<and> shownValues (searchResults
        (run sampleFacet
          [PromiseResolves 1 [fieldValue ''abc''], PromiseResolves 0 [fieldValue ''axe'']]
          twoSearches)) = [''axe'']"
  by code_simp

subsection \<open>Invariants of the event loop\<close>

text \<open>
  The two conditions assumed above hold in every state that the event loop reaches from
  the initial state: \<^verbatim>\<open>coveo-current\<close> sits on selectable elements only, and every
  pending promise was returned by an earlier call of \<^verbatim>\<open>search\<close>.
\<close>

lemma results_cancel [simp]:
  "searchResults (cancelAnyPendingSearchOperation s) = searchResults s"
  by (simp add: cancel_defs)

lemma results_trigger [simp]:
  "searchResults (triggerNewFacetSearch params s) = searchResults s"
  by (simp add: triggerNewFacetSearch_def Let_def showFacetSearchWaitingAnimation_def)

lemma results_startTimeout [simp]:
  "searchResults (startNewSearchTimeout params s) = searchResults s"
  by (simp add: startNewSearchTimeout_def)

lemma results_selectAll [simp]:
  "searchResults (selectAllValuesMatchingSearch facet s) = []"
  by (simp add: selectAllValuesMatchingSearch_def Let_def searchResults_dismiss)

lemma wf_nil [simp]: "currentOnlyOnSelectables []"
  by (simp add: currentOnlyOnSelectables_def)

lemma wf_process:
  assumes "currentOnlyOnSelectables (searchResults s)"
  shows "currentOnlyOnSelectables
     (searchResults (processNewFacetSearchResults facet fieldValues params s))"
proof (cases "reorderValues facet fieldValues = []")
  case True
  with assms show ?thesis
    by (simp add: processNewFacetSearchResults_def hideSearchResultsElement_def)
next
  case False
  let ?s3 = "rebuildSearchResults facet (reorderValues facet fieldValues) params
      (s\<lparr>searchNoResults := False, inactiveValuesFaded := True\<rparr>)"
  have "currentOnlyOnSelectables (searchResults ?s3)"
    using assms by (intro wf_rebuild) simp
  then have "currentOnlyOnSelectables
      (addCurrent (itemAt (getSelectables (searchResults ?s3)) 0)
         (removeCurrentFromSelectables (searchResults ?s3)))"
    by (rule wf_anchor)
  with False show ?thesis
    by (simp add: processNewFacetSearchResults_def Let_def makeFirstSearchResultTheCurrentOne_def
        makeCurrentResult_def showSearchResultsElement_def)
qed

lemma wf_enter:
  "currentOnlyOnSelectables (searchResults s) \<Longrightarrow>
   currentOnlyOnSelectables (searchResults (keyboardNavigationEnterPressed facet event isEmpty s))"
  by (simp add: keyboardNavigationEnterPressed_def searchResults_dismiss split: option.splits)

lemma wf_delete:
  "currentOnlyOnSelectables (searchResults s) \<Longrightarrow>
   currentOnlyOnSelectables (searchResults (keyboardNavigationDeletePressed event s))"
  by (simp add: keyboardNavigationDeletePressed_def searchResults_dismiss split: option.splits)

lemma wf_navigation:
  assumes "currentOnlyOnSelectables (searchResults s)"
  shows "currentOnlyOnSelectables (searchResults (handleKeyboardNavigation facet event isEmpty s))"
  using assms wf_moveDown[OF assms] wf_moveUp[OF assms] wf_enter[OF assms] wf_delete[OF assms]
  by (cases "which event") (simp_all add: handleKeyboardNavigation_def searchResults_dismiss Let_def)

lemma wf_keyUp:
  assumes "currentOnlyOnSelectables (searchResults s)"
  shows "currentOnlyOnSelectables (searchResults (handleFacetSearchKeyUp facet event s))"
proof -
  let ?s1 = "showOrHideClearElement (inputValue s = []) s"
  have "searchResults ?s1 = searchResults s" by (simp add: showOrHideClearElement_def)
  with assms have wf1: "currentOnlyOnSelectables (searchResults ?s1)" by simp
  from wf_navigation[OF wf1] wf1 show ?thesis
    by (simp add: handleFacetSearchKeyUp_def Let_def)
qed

lemma wf_step:
  assumes "currentOnlyOnSelectables (searchResults s)"
  shows "currentOnlyOnSelectables (searchResults (step facet ev s))"
proof (cases ev)
  case (KeyUp event)
  with assms show ?thesis by (simp add: wf_keyUp)
next
  case (PromiseResolves promise fieldValues)
  then show ?thesis
    using assms
      wf_process[of "s\<lparr>handlers := withoutPromise promise (handlers s)\<rparr>" facet fieldValues]
    by (simp add: resolvePromise_def Let_def facetSearchThen_def selectAllThen_def
        hideFacetSearchWaitingAnimation_def searchResults_dismiss
        split: option.splits handler.splits)
next
  case (PromiseRejects promise error)
  with assms show ?thesis
    by (simp add: rejectPromise_def Let_def facetSearchCatch_def
        hideFacetSearchWaitingAnimation_def split: option.splits handler.splits)
next
  case (MouseMoveOn i)
  show ?thesis
  proof (cases "i < length (searchResults s) \<and> selectable (searchResults s ! i)")
    case True
    have "currentOnlyOnSelectables
        (addCurrent (Some i) (removeCurrentFromSelectables (searchResults s)))"
      using assms True by (intro wf_addCurrent wf_removeCurrent) (simp_all add: selectable_removeCurrent)
    with True MouseMoveOn show ?thesis by (simp add: makeCurrentResult_def)
  next
    case False
    with assms MouseMoveOn show ?thesis by auto
  qed
qed (use assms in \<open>simp_all add: handleFacetSearchFocus_def handleClickElsewhere_def
      handleFacetSearchClear_def handleFacetSearchResultsScroll_def fireSearchTimeout_def
      searchTimeoutCallback_def searchResults_dismiss Let_def split: option.splits\<close>)

lemma wf_run:
  "currentOnlyOnSelectables (searchResults s) \<Longrightarrow>
   currentOnlyOnSelectables (searchResults (run facet evs s))"
  by (induction evs arbitrary: s) (simp_all add: wf_step)

lemma wf_reachable: "currentOnlyOnSelectables (searchResults (run facet evs initial))"
  by (rule wf_run) (simp add: initial_def)

lemma pending_same:
  "handlers s' = handlers s \<Longrightarrow> searchCalls s' = searchCalls s \<Longrightarrow>
   pendingPromisesIssued s' = pendingPromisesIssued s"
  by (simp add: pendingPromisesIssued_def)

lemma pending_cancel [simp]:
  "pendingPromisesIssued (cancelAnyPendingSearchOperation s) = pendingPromisesIssued s"
  by (rule pending_same) (simp_all add: cancel_defs)

lemma pending_dismiss [simp]:
  "pendingPromisesIssued (completelyDismissSearch s) = pendingPromisesIssued s"
  by (rule pending_same) simp_all

lemma pending_startTimeout [simp]:
  "pendingPromisesIssued (startNewSearchTimeout params s) = pendingPromisesIssued s"
  by (rule pending_same) (simp_all add: startNewSearchTimeout_def cancel_defs)

lemma pending_issue:
  assumes "pendingPromisesIssued s"
  shows "pendingPromisesIssued
     (s\<lparr>searchCalls := searchCalls s @ [params],
        handlers := handlers s @ [(length (searchCalls s), h)]\<rparr>)"
  using assms by (auto simp: pendingPromisesIssued_def list_all_iff)

lemma pending_trigger:
  assumes "pendingPromisesIssued s"
  shows "pendingPromisesIssued (triggerNewFacetSearch params s)"
proof -
  let ?c = "cancelAnyPendingSearchOperation s"
  have "pendingPromisesIssued ?c" using assms by simp
  from pending_issue[OF this, where params = params and h = "FacetSearchHandlers params"]
  show ?thesis
    by (simp add: triggerNewFacetSearch_def Let_def showFacetSearchWaitingAnimation_def
        pendingPromisesIssued_def)
qed

lemma pending_selectAll:
  assumes "pendingPromisesIssued s"
  shows "pendingPromisesIssued (selectAllValuesMatchingSearch facet s)"
  using pending_issue[OF assms, where h = SelectAllHandlers]
  by (simp add: selectAllValuesMatchingSearch_def Let_def pendingPromisesIssued_def)

lemma pending_settle:
  "pendingPromisesIssued s \<Longrightarrow>
   pendingPromisesIssued (s\<lparr>handlers := withoutPromise promise (handlers s)\<rparr>)"
  by (simp add: pendingPromisesIssued_def withoutPromise_def list_all_iff)

lemma pending_process [simp]:
  "pendingPromisesIssued (processNewFacetSearchResults facet fieldValues params s)
     = pendingPromisesIssued s"
  by (rule pending_same)
     (simp_all add: processNewFacetSearchResults_def Let_def makeFirstSearchResultTheCurrentOne_def
       makeCurrentResult_def showSearchResultsElement_def positionSearchResults_def
       rebuildSearchResults_def hideSearchResultsElement_def)

lemma pending_resolve:
  assumes "pendingPromisesIssued s"
  shows "pendingPromisesIssued (resolvePromise facet promise fieldValues s)"
proof (cases "map_of (handlers s) promise")
  case None
  with assms show ?thesis by (simp add: resolvePromise_def)
next
  case (Some h)
  let ?s1 = "s\<lparr>handlers := withoutPromise promise (handlers s)\<rparr>"
  have p1: "pendingPromisesIssued ?s1" using assms by (rule pending_settle)
  show ?thesis
  proof (cases h)
    case (FacetSearchHandlers params)
    have "pendingPromisesIssued (facetSearchThen facet params fieldValues ?s1)
        = pendingPromisesIssued (processNewFacetSearchResults facet fieldValues params ?s1)"
      by (rule pending_same)
         (simp_all add: facetSearchThen_def Let_def hideFacetSearchWaitingAnimation_def)
    with p1 Some FacetSearchHandlers show ?thesis
      by (simp add: resolvePromise_def Let_def)
  next
    case SelectAllHandlers
    have "pendingPromisesIssued (selectAllThen facet fieldValues ?s1)
        = pendingPromisesIssued (completelyDismissSearch ?s1)"
      by (rule pending_same) (simp_all add: selectAllThen_def Let_def)
    with p1 Some SelectAllHandlers show ?thesis
      by (simp add: resolvePromise_def Let_def)
  qed
qed

lemma pending_reject:
  assumes "pendingPromisesIssued s"
  shows "pendingPromisesIssued (rejectPromise promise error s)"
proof (cases "map_of (handlers s) promise")
  case None
  with assms show ?thesis by (simp add: rejectPromise_def)
next
  case (Some h)
  let ?s1 = "s\<lparr>handlers := withoutPromise promise (handlers s)\<rparr>"
  have p1: "pendingPromisesIssued ?s1" using assms by (rule pending_settle)
  have "pendingPromisesIssued (facetSearchCatch error ?s1) = pendingPromisesIssued ?s1"
    by (rule pending_same)
       (simp_all add: facetSearchCatch_def Let_def hideFacetSearchWaitingAnimation_def)
  with p1 Some show ?thesis
    by (cases h) (simp_all add: rejectPromise_def Let_def)
qed

lemma pending_select:
  assumes "pendingPromisesIssued s"
    and "performSelectActionOnCurrentSearchResult facet s = Some s1"
  shows "pendingPromisesIssued s1"
proof -
  from assms(2) consider (sel) v where "s1 = s\<lparr>selectionChanged := selectionChanged s @ [(v, True)]\<rparr>"
    | (all) "s1 = selectAllValuesMatchingSearch facet s" | (same) "s1 = s"
    by (auto simp: performSelectActionOnCurrentSearchResult_def
        split: option.splits entry.splits if_splits)
  then show ?thesis
  proof cases
    case sel
    with assms(1) show ?thesis by (simp add: pendingPromisesIssued_def)
  next
    case all
    with assms(1) show ?thesis by (simp add: pending_selectAll)
  next
    case same
    with assms(1) show ?thesis by simp
  qed
qed

lemma pending_exclude:
  assumes "pendingPromisesIssued s"
    and "performExcludeActionOnCurrentSearchResult s = Some s1"
  shows "pendingPromisesIssued s1"
  using assms
  by (auto simp: performExcludeActionOnCurrentSearchResult_def pendingPromisesIssued_def
      split: option.splits entry.splits if_splits)

lemma pending_enter:
  assumes "pendingPromisesIssued s"
  shows "pendingPromisesIssued (keyboardNavigationEnterPressed facet event isEmpty s)"
  using assms pending_select[OF assms]
  by (auto simp: keyboardNavigationEnterPressed_def pending_trigger pending_selectAll
      split: option.splits)

lemma pending_delete:
  assumes "pendingPromisesIssued s"
  shows "pendingPromisesIssued (keyboardNavigationDeletePressed event s)"
proof (cases "performExcludeActionOnCurrentSearchResult s")
  case None
  with assms show ?thesis by (simp add: keyboardNavigationDeletePressed_def)
next
  case (Some s1)
  from pending_exclude[OF assms Some] have "pendingPromisesIssued (completelyDismissSearch s1)"
    by simp
  then have "pendingPromisesIssued ((completelyDismissSearch s1)\<lparr>inputValue := []\<rparr>)"
    by (simp add: pendingPromisesIssued_def)
  with Some assms show ?thesis by (simp add: keyboardNavigationDeletePressed_def)
qed

lemma pending_navigation:
  assumes "pendingPromisesIssued s"
  shows "pendingPromisesIssued (handleKeyboardNavigation facet event isEmpty s)"
proof (cases "which event")
  case ENTER
  with pending_enter[OF assms] show ?thesis by (simp add: handleKeyboardNavigation_def)
next
  case DELETE
  with pending_delete[OF assms] show ?thesis by (simp add: handleKeyboardNavigation_def)
next
  case ESCAPE
  with assms show ?thesis by (simp add: handleKeyboardNavigation_def)
next
  case DOWN_ARROW
  with assms show ?thesis
    by (simp add: handleKeyboardNavigation_def moveCurrentResultDown_def Let_def
        pendingPromisesIssued_def)
next
  case UP_ARROW
  with assms show ?thesis
    by (simp add: handleKeyboardNavigation_def moveCurrentResultUp_def Let_def
        pendingPromisesIssued_def)
next
  case OTHER_KEY
  with assms show ?thesis
    by (simp add: handleKeyboardNavigation_def Let_def) (simp add: pendingPromisesIssued_def)
qed

lemma pending_keyUp:
  assumes "pendingPromisesIssued s"
  shows "pendingPromisesIssued (handleFacetSearchKeyUp facet event s)"
proof -
  let ?s1 = "showOrHideClearElement (inputValue s = []) s"
  have "pendingPromisesIssued ?s1 = pendingPromisesIssued s"
    by (rule pending_same) (simp_all add: showOrHideClearElement_def)
  with assms have p1: "pendingPromisesIssued ?s1" by simp
  from pending_navigation[OF p1] p1 show ?thesis
    by (simp add: handleFacetSearchKeyUp_def Let_def)
qed

lemma pending_step:
  assumes "pendingPromisesIssued s"
  shows "pendingPromisesIssued (step facet ev s)"
proof (cases ev)
  case (KeyUp event)
  with assms show ?thesis by (simp add: pending_keyUp)
next
  case (PromiseResolves promise fieldValues)
  with assms show ?thesis by (simp add: pending_resolve)
next
  case (PromiseRejects promise error)
  with assms show ?thesis by (simp add: pending_reject)
next
  case (InputEdited str)
  with assms show ?thesis by (simp add: pendingPromisesIssued_def)
next
  case (MouseMoveOn i)
  with assms show ?thesis by (simp add: pendingPromisesIssued_def makeCurrentResult_def)
next
  case WindowResized
  with assms show ?thesis
    by (simp add: pendingPromisesIssued_def positionSearchResults_def Let_def)
next
  case ClickClear
  have "pendingPromisesIssued (s\<lparr>inputValue := [], clearShown := False\<rparr>)"
    using assms by (simp add: pendingPromisesIssued_def)
  with ClickClear show ?thesis by (simp add: handleFacetSearchClear_def)
qed (use assms in \<open>simp_all add: handleFacetSearchFocus_def handleClickElsewhere_def
      handleFacetSearchClear_def handleFacetSearchResultsScroll_def fireSearchTimeout_def
      searchTimeoutCallback_def pending_trigger pending_selectAll Let_def
      split: option.splits\<close>)

lemma pending_reachable: "pendingPromisesIssued (run facet evs initial)"
proof -
  have "pendingPromisesIssued s \<Longrightarrow> pendingPromisesIssued (run facet evs s)" for s
    by (induction evs arbitrary: s) (simp_all add: pending_step)
  then show ?thesis by (simp add: pendingPromisesIssued_def initial_def)
qed

end
